theory Spec2Isabelle
  imports Complex_Main
begin

section \<open>Errors and tensors\<close>

text \<open>
  Every exception the modelled code can raise is a value. The names are Python's:
  \<open>AssertionError\<close> is what \<open>assert sr == self.sample_rate\<close> raises, \<open>UnboundLocalError\<close> is a
  read of a local name that no executed statement has bound, \<open>RuntimeError\<close> is torch's shape
  mismatch on a slice assignment, \<open>TypeError\<close> is \<open>torch.tensor\<close> refusing a \<open>None\<close> entry.
  \<open>External\<close> carries a failure of a library this file does not model (the audio loader, the
  text cleaners, the codec).
\<close>

datatype error =
    ValueError
  | IndexError
  | RuntimeError
  | TypeError
  | UnboundLocalError
  | AttributeError
  | AssertionError
  | OSError
  | RecursionError
  | External string

text \<open>
  A torch tensor is a shape together with its entries. Two-dimensional tensors (a mel
  \<open>[n_mels, time]\<close>, a waveform \<open>[channels, samples]\<close>, the padded symbol matrix \<open>[B, Tx]\<close>) and
  three-dimensional ones (the padded mel \<open>[B, n_feats, Ty]\<close> and waveform \<open>[B, 1, Tw]\<close>) carry
  their dimensions explicitly, so that \<open>shape[-1]\<close> is defined also when there is no row.
\<close>

record 'a tensor2 =
  nrow :: nat
  ncol :: nat
  rows :: "'a list list"

record 'a tensor3 =
  nbatch :: nat
  nchan :: nat
  nlast :: nat
  slabs :: "'a list list list"

definition wf2 :: "'a tensor2 \<Rightarrow> bool" where
  "wf2 t = (length (rows t) = nrow t \<and> list_all (\<lambda>r. length r = ncol t) (rows t))"

text \<open>\<open>torch.zeros((d0, d1))\<close> and \<open>torch.zeros((d0, d1, d2))\<close>.\<close>

definition zeros2 :: "nat \<Rightarrow> nat \<Rightarrow> ('a::zero) tensor2" where
  "zeros2 d0 d1 = \<lparr>nrow = d0, ncol = d1, rows = replicate d0 (replicate d1 0)\<rparr>"

definition zeros3 :: "nat \<Rightarrow> nat \<Rightarrow> nat \<Rightarrow> ('a::zero) tensor3" where
  "zeros3 d0 d1 d2 =
     \<lparr>nbatch = d0, nchan = d1, nlast = d2, slabs = replicate d0 (replicate d1 (replicate d2 0))\<rparr>"

text \<open>The slice \<open>t[:, :k]\<close> of a two-dimensional tensor.\<close>

definition slice_cols :: "nat \<Rightarrow> 'a tensor2 \<Rightarrow> 'a tensor2" where
  "slice_cols k t = \<lparr>nrow = nrow t, ncol = min k (ncol t), rows = map (take k) (rows t)\<rparr>"

text \<open>
  Broadcasting a two-dimensional source to the shape \<open>[r, c]\<close> of an assignment target: each
  dimension of the source is the target's or is 1, else torch raises a RuntimeError.
\<close>

definition broadcast2 :: "nat \<Rightarrow> nat \<Rightarrow> 'a tensor2 \<Rightarrow> error + 'a list list" where
  "broadcast2 r c src =
     (if (nrow src = r \<or> nrow src = 1) \<and> (ncol src = c \<or> ncol src = 1)
      then Inr (map (\<lambda>row. if ncol src = c then row else replicate c (row ! 0))
                    (if nrow src = r then rows src else replicate r (rows src ! 0)))
      else Inl RuntimeError)"

text \<open>
  Writing a block over the first \<open>c\<close> columns of a slab: every row keeps its entries from
  column \<open>c\<close> on.
\<close>

definition put_slab :: "nat \<Rightarrow> 'a list list \<Rightarrow> 'a list list \<Rightarrow> 'a list list" where
  "put_slab c blk old = map (\<lambda>(new, keep). new @ drop c keep) (zip blk old)"

text \<open>The assignment \<open>t[i, :, :L] = src\<close>; the slice \<open>:L\<close> stops at the tensor's last dimension.\<close>

definition setitem3 :: "'a tensor3 \<Rightarrow> nat \<Rightarrow> nat \<Rightarrow> 'a tensor2 \<Rightarrow> error + 'a tensor3" where
  "setitem3 t i L src =
     (if nbatch t \<le> i then Inl IndexError
      else (case broadcast2 (nchan t) (min L (nlast t)) src of
              Inl e \<Rightarrow> Inl e
            | Inr blk \<Rightarrow>
                Inr (t\<lparr>slabs := (slabs t)[i := put_slab (min L (nlast t)) blk (slabs t ! i)]\<rparr>)))"

text \<open>The assignment \<open>t[i, :L] = src\<close> of a one-dimensional source into a row of a matrix.\<close>

definition setitem2 :: "'a tensor2 \<Rightarrow> nat \<Rightarrow> nat \<Rightarrow> 'a list \<Rightarrow> error + 'a tensor2" where
  "setitem2 t i L src =
     (if nrow t \<le> i then Inl IndexError
      else if length src = min L (ncol t)
      then Inr (t\<lparr>rows := (rows t)[i := src @ drop (min L (ncol t)) (rows t ! i)]\<rparr>)
      else if length src = 1
      then Inr (t\<lparr>rows := (rows t)[i := replicate (min L (ncol t)) (src ! 0)
                                            @ drop (min L (ncol t)) (rows t ! i)]\<rparr>)
      else Inl RuntimeError)"

text \<open>Python's \<open>max\<close> of a list raises a ValueError on the empty list.\<close>

fun py_max :: "nat list \<Rightarrow> error + nat" where
  "py_max [] = Inl ValueError"
| "py_max (v # vs) = Inr (fold max vs v)"

section \<open>Length compatibility\<close>

text \<open>
  Modelled from the spec: \<open>fix_len_compatibility\<close> lives in \<open>pflow/utils/model.py\<close>, which is not
  among the sources. The spec gives it as \<open>ceil(max_len / factor) * factor\<close> when the length is
  not already a multiple of the factor, else the length unchanged. The factor is fixed by
  that module and is a parameter here.
\<close>

definition fix_len_compatibility :: "nat \<Rightarrow> nat \<Rightarrow> nat" where
  "fix_len_compatibility factor len =
     (if len mod factor = 0 then len
      else ((len + factor - 1) div factor) * factor)"

section \<open>The batch collator\<close>

text \<open>A sample as \<open>get_datapoint\<close> builds it: the dictionary with keys x, y, spk and wav.\<close>

record 'a sample =
  item_x :: "int list"
  item_y :: "'a tensor2"
  item_spk :: "int option"
  item_wav :: "'a tensor2"

text \<open>
  The codec is an external module. Its state is the training flag that \<open>eval()\<close> clears;
  \<open>forward\<close> is its call with \<open>curtail_from_left = True, return_encoded = True\<close>, given the
  mode it runs in, and yields the first component of the returned triple.
  \<open>squeeze_transpose\<close> stands for \<open>.squeeze(0).transpose(1, 2)\<close> on the codec's output type.
\<close>

record ('a, 'c) codec =
  training :: bool
  forward :: "bool \<Rightarrow> 'a tensor3 \<Rightarrow> error + 'c"
  squeeze_transpose :: "'c \<Rightarrow> error + 'c"

text \<open>
  The collator object. The attribute \<open>encodec\<close> exists only when \<open>get_codes\<close> held at
  construction.
\<close>

record ('a, 'c) collator =
  n_spks :: int
  get_codes :: bool
  encodec :: "('a, 'c) codec option"

definition TextMelBatchCollate_init ::
  "('a, 'c) codec \<Rightarrow> int \<Rightarrow> bool \<Rightarrow> ('a, 'c) collator" where
  "TextMelBatchCollate_init EncodecWrapper n get =
     \<lparr>n_spks = n, get_codes = get, encodec = (if get then Some EncodecWrapper else None)\<rparr>"

definition batched_encodec ::
  "('a, 'c) collator \<Rightarrow> 'a tensor3 \<Rightarrow> (error + 'c) \<times> ('a, 'c) collator" where
  "batched_encodec self w =
     (case encodec self of
        None \<Rightarrow> (Inl AttributeError, self)
      | Some m \<Rightarrow>
          (let m' = m\<lparr>training := False\<rparr>
           in (forward m' (training m') w, self\<lparr>encodec := Some m'\<rparr>)))"

text \<open>The dictionary the collator returns, one field per key.\<close>

record ('a, 'c) batch =
  b_x :: "int tensor2"
  b_x_lengths :: "nat list"
  b_y :: "'a tensor3"
  b_y_lengths :: "nat list"
  b_spks :: "int list option"
  b_wav :: "'a tensor3"
  b_wav_lengths :: "nat list"
  b_codes :: 'c
  b_codes_lengths :: "nat list option"
  b_prompt_spec :: "'a tensor3"
  b_prompt_lengths :: "nat list"
  b_prompt_codes :: 'c
  b_prompt_codes_lengths :: "nat list option"

text \<open>The variables the loop of \<open>__call__\<close> updates.\<close>

record 'a loop_state =
  l_y :: "'a tensor3"
  l_x :: "int tensor2"
  l_wav :: "'a tensor3"
  l_y_lengths :: "nat list"
  l_x_lengths :: "nat list"
  l_wav_lengths :: "nat list"
  l_spks :: "int option list"

text \<open>\<open>item["wav"][:, :wav_max_length] if item["wav"].shape[-1] > wav_max_length else item["wav"]\<close>\<close>

definition truncate_wav :: "nat \<Rightarrow> 'a tensor2 \<Rightarrow> 'a tensor2" where
  "truncate_wav wav_max_length w =
     (if ncol w > wav_max_length then slice_cols wav_max_length w else w)"

text \<open>One pass of the loop body for the item at position \<open>i\<close>, in the source's order.\<close>

definition collate_step ::
  "nat \<Rightarrow> nat \<Rightarrow> 'a sample \<Rightarrow> 'a loop_state \<Rightarrow> error + 'a loop_state" where
  "collate_step wav_max_length i item s =
     (let y_i = item_y item; x_i = item_x item;
          wav_i = truncate_wav wav_max_length (item_wav item)
      in case setitem3 (l_y s) i (ncol y_i) y_i of
           Inl e \<Rightarrow> Inl e
         | Inr y' \<Rightarrow>
        (case setitem2 (l_x s) i (length x_i) x_i of
           Inl e \<Rightarrow> Inl e
         | Inr x' \<Rightarrow>
        (case setitem3 (l_wav s) i (ncol wav_i) wav_i of
           Inl e \<Rightarrow> Inl e
         | Inr wav' \<Rightarrow>
             Inr \<lparr>l_y = y', l_x = x', l_wav = wav',
                  l_y_lengths = l_y_lengths s @ [ncol y_i],
                  l_x_lengths = l_x_lengths s @ [length x_i],
                  l_wav_lengths = l_wav_lengths s @ [ncol wav_i],
                  l_spks = l_spks s @ [item_spk item]\<rparr>)))"

fun collate_loop ::
  "nat \<Rightarrow> nat \<Rightarrow> 'a sample list \<Rightarrow> 'a loop_state \<Rightarrow> error + 'a loop_state" where
  "collate_loop wav_max_length i [] s = Inr s"
| "collate_loop wav_max_length i (item # rest) s =
     (case collate_step wav_max_length i item s of
        Inl e \<Rightarrow> Inl e
      | Inr s' \<Rightarrow> collate_loop wav_max_length (Suc i) rest s')"

text \<open>
  What the loop does to one of its three-dimensional tensors alone: the assignments
  \<open>t[i, :, :src.shape[-1]] = src\<close> for the sources in order, from position \<open>i\<close> on.
\<close>

fun assign_all :: "nat \<Rightarrow> 'a tensor2 list \<Rightarrow> 'a tensor3 \<Rightarrow> error + 'a tensor3" where
  "assign_all i [] t = Inr t"
| "assign_all i (src # rest) t =
     (case setitem3 t i (ncol src) src of
        Inl e \<Rightarrow> Inl e
      | Inr t' \<Rightarrow> assign_all (Suc i) rest t')"

text \<open>\<open>torch.tensor(spks, dtype=torch.long)\<close>: every entry has to be an integer.\<close>

fun tensor_of_spks :: "int option list \<Rightarrow> error + int list" where
  "tensor_of_spks [] = Inr []"
| "tensor_of_spks (None # _) = Inl TypeError"
| "tensor_of_spks (Some v # vs) =
     (case tensor_of_spks vs of Inl e \<Rightarrow> Inl e | Inr r \<Rightarrow> Inr (v # r))"

text \<open>
  Lines 251 to 270: the conversions and the returned dictionary. The locals \<open>codes\<close> and
  \<open>codes_lengths\<close> are bound only by the branch \<open>if self.get_codes\<close>; \<open>None\<close> here is a local
  that was never bound, and reading it raises. \<open>codes_lengths\<close> is read only under
  \<open>if self.get_codes\<close>, \<open>codes\<close> is read by the dictionary in every case.
\<close>

definition finish ::
  "('a, 'c) collator \<Rightarrow> 'a loop_state \<Rightarrow> 'c option \<Rightarrow> nat list option \<Rightarrow> error + ('a, 'c) batch" where
  "finish self s codes codes_lengths =
     (case (if n_spks self > 1
            then (case tensor_of_spks (l_spks s) of Inl e \<Rightarrow> Inl e | Inr v \<Rightarrow> Inr (Some v))
            else Inr None) of
        Inl e \<Rightarrow> Inl e
      | Inr spks \<Rightarrow>
     (case (if get_codes self
            then (case codes_lengths of None \<Rightarrow> Inl UnboundLocalError | Some l \<Rightarrow> Inr (Some l))
            else Inr None) of
        Inl e \<Rightarrow> Inl e
      | Inr cl \<Rightarrow>
     (case codes of
        None \<Rightarrow> Inl UnboundLocalError
      | Some cd \<Rightarrow>
          Inr \<lparr>b_x = l_x s, b_x_lengths = l_x_lengths s,
               b_y = l_y s, b_y_lengths = l_y_lengths s,
               b_spks = spks,
               b_wav = l_wav s, b_wav_lengths = l_wav_lengths s,
               b_codes = cd, b_codes_lengths = cl,
               b_prompt_spec = l_y s, b_prompt_lengths = l_y_lengths s,
               b_prompt_codes = cd, b_prompt_codes_lengths = cl\<rparr>)))"

text \<open>
  Lines 246 to 249: the codec step. It yields the locals \<open>codes\<close> and \<open>codes_lengths\<close>, which
  stay unbound when \<open>get_codes\<close> is off, and the collator after the step.
\<close>

definition codes_step ::
  "('a, 'c) collator \<Rightarrow> 'a loop_state
     \<Rightarrow> (error + 'c option \<times> nat list option) \<times> ('a, 'c) collator" where
  "codes_step self s =
     (if get_codes self
      then (case batched_encodec self (l_wav s) of
              (Inl e, self') \<Rightarrow> (Inl e, self')
            | (Inr codes, self') \<Rightarrow>
                (let codes_lengths = map (\<lambda>wav_len. 1 + wav_len div 320) (l_wav_lengths s)
                 in case encodec self' of
                      None \<Rightarrow> (Inl AttributeError, self')
                    | Some m \<Rightarrow>
                        (case squeeze_transpose m codes of
                           Inl e \<Rightarrow> (Inl e, self')
                         | Inr codes' \<Rightarrow> (Inr (Some codes', Some codes_lengths), self'))))
      else (Inr (None, None), self))"

text \<open>Lines 222 to 231: the padded lengths and the zero-filled tensors.\<close>

definition y_max_length_of :: "nat \<Rightarrow> 'a sample list \<Rightarrow> error + nat" where
  "y_max_length_of factor batch =
     (case py_max (map (\<lambda>item. ncol (item_y item)) batch) of
        Inl e \<Rightarrow> Inl e
      | Inr y_max_length \<Rightarrow> Inr (fix_len_compatibility factor y_max_length))"

definition init_state :: "nat \<Rightarrow> 'a sample list \<Rightarrow> error + nat \<times> ('a::zero) loop_state" where
  "init_state factor batch =
     (let B = length batch
      in case y_max_length_of factor batch of
           Inl e \<Rightarrow> Inl e
         | Inr y_max_length \<Rightarrow>
        (let wav_max_length = y_max_length * 256
         in case py_max (map (\<lambda>item. length (item_x item)) batch) of
              Inl e \<Rightarrow> Inl e
            | Inr x_max_length \<Rightarrow>
           (case batch of
              [] \<Rightarrow> Inl IndexError
            | b0 # _ \<Rightarrow>
               (let n_feats = nrow (item_y b0)
                in Inr (wav_max_length,
                        \<lparr>l_y = zeros3 B n_feats y_max_length,
                         l_x = zeros2 B x_max_length,
                         l_wav = zeros3 B 1 wav_max_length,
                         l_y_lengths = [], l_x_lengths = [], l_wav_lengths = [],
                         l_spks = []\<rparr>)))))"

text \<open>
  \<open>TextMelBatchCollate.__call__\<close>. The result is paired with the collator after the call,
  whose codec has been put in evaluation mode when the codec step ran. \<open>factor\<close> is the
  factor of \<open>fix_len_compatibility\<close>.
\<close>

definition call ::
  "nat \<Rightarrow> ('a::zero, 'c) collator \<Rightarrow> 'a sample list
     \<Rightarrow> (error + ('a, 'c) batch) \<times> ('a, 'c) collator" where
  "call factor self batch =
     (case init_state factor batch of
        Inl e \<Rightarrow> (Inl e, self)
      | Inr (wav_max_length, s0) \<Rightarrow>
     (case collate_loop wav_max_length 0 batch s0 of
        Inl e \<Rightarrow> (Inl e, self)
      | Inr s \<Rightarrow>
     (case codes_step self s of
        (Inl e, self') \<Rightarrow> (Inl e, self')
      | (Inr (codes, codes_lengths), self') \<Rightarrow> (finish self' s codes codes_lengths, self'))))"

section \<open>The manifest parser\<close>

text \<open>
  Python strings are modelled as \<open>string\<close>, a character standing for a code point below 256.
  \<open>is_space\<close> is \<open>str.isspace\<close> on those code points, \<open>strip\<close> is \<open>str.strip()\<close>.
\<close>

definition is_space :: "char \<Rightarrow> bool" where
  "is_space c = (let n = (of_char c :: nat)
                 in (9 \<le> n \<and> n \<le> 13) \<or> (28 \<le> n \<and> n \<le> 32) \<or> n = 133 \<or> n = 160)"

definition strip :: "string \<Rightarrow> string" where
  "strip s = rev (dropWhile is_space (rev (dropWhile is_space s)))"

text \<open>
  \<open>str.split(sep)\<close>: the pieces between the occurrences of the separator, taken from the left
  without overlap; an empty separator raises a ValueError.
\<close>

function split_from :: "string \<Rightarrow> string \<Rightarrow> string \<Rightarrow> string list" where
  "split_from sep acc [] = [rev acc]"
| "split_from sep acc (c # cs) =
     (if sep \<noteq> [] \<and> take (length sep) (c # cs) = sep
      then rev acc # split_from sep [] (drop (length sep) (c # cs))
      else split_from sep (c # acc) cs)"
  by pat_completeness auto
termination
  by (relation "measure (\<lambda>(sep, acc, s). length s)") auto

definition py_split :: "string \<Rightarrow> string \<Rightarrow> error + string list" where
  "py_split s sep = (if sep = [] then Inl ValueError else Inr (split_from sep [] s))"

text \<open>A list comprehension whose element expression can raise stops at the first failure.\<close>

fun map_err :: "('a \<Rightarrow> error + 'b) \<Rightarrow> 'a list \<Rightarrow> error + 'b list" where
  "map_err f [] = Inr []"
| "map_err f (v # vs) =
     (case f v of
        Inl e \<Rightarrow> Inl e
      | Inr w \<Rightarrow> (case map_err f vs of Inl e \<Rightarrow> Inl e | Inr ws \<Rightarrow> Inr (w # ws)))"

text \<open>Indexing a Python list: a negative index counts from the end.\<close>

definition py_index :: "'a list \<Rightarrow> int \<Rightarrow> error + 'a" where
  "py_index xs i =
     (if 0 \<le> i \<and> i < int (length xs) then Inr (xs ! nat i)
      else if i < 0 \<and> - int (length xs) \<le> i then Inr (xs ! nat (int (length xs) + i))
      else Inl IndexError)"

text \<open>
  The libraries and the file system the data module calls, as parameters:
  \<^item> \<open>open_lines\<close>: \<open>open(path, encoding="utf-8")\<close> and the lines the file object iterates
    over, each with its line end;
  \<^item> \<open>ta_load\<close>: \<open>torchaudio.load\<close>, the waveform \<open>[channels, samples]\<close> and the sample rate;
  \<^item> \<open>mel_spectrogram\<close>: the transform called with \<open>center=False\<close>, followed by \<open>.squeeze()\<close>,
    a matrix \<open>[n_mels, frames]\<close>;
  \<^item> \<open>text_to_sequence\<close>: the cleaners and the symbol table;
  \<^item> \<open>py_int\<close>: the builtin \<open>int\<close> on a string;
  \<^item> \<open>random_seed\<close>: the generator after \<open>random.seed(seed)\<close>.
\<close>

type_synonym rng = "nat \<Rightarrow> nat"

record env =
  open_lines :: "string \<Rightarrow> error + string list"
  ta_load :: "string \<Rightarrow> error + real tensor2 \<times> nat"
  mel_spectrogram ::
    "real tensor2 \<Rightarrow> nat \<Rightarrow> nat \<Rightarrow> nat \<Rightarrow> nat \<Rightarrow> nat \<Rightarrow> real \<Rightarrow> real \<Rightarrow> real tensor2"
  text_to_sequence :: "string \<Rightarrow> string list \<Rightarrow> error + int list"
  py_int :: "string \<Rightarrow> error + int"
  random_seed :: "int option \<Rightarrow> rng"

definition parse_filelist :: "env \<Rightarrow> string \<Rightarrow> string \<Rightarrow> error + string list list" where
  "parse_filelist io filelist_path split_char =
     (case open_lines io filelist_path of
        Inl e \<Rightarrow> Inl e
      | Inr f \<Rightarrow> map_err (\<lambda>line. py_split (strip line) split_char) f)"

section \<open>The random source\<close>

text \<open>
  The state of Python's global generator is the sequence of raw values it will still
  produce. \<open>randbelow n\<close> reduces the next raw value to \<open>[0, n)\<close>; \<open>random.randint(a, b)\<close> is
  \<open>a + randbelow (b - a + 1)\<close> and raises a ValueError on an empty range.
\<close>

definition randbelow :: "nat \<Rightarrow> rng \<Rightarrow> nat \<times> rng" where
  "randbelow n g = (g 0 mod n, \<lambda>k. g (Suc k))"

definition randint :: "int \<Rightarrow> int \<Rightarrow> rng \<Rightarrow> (error + int) \<times> rng" where
  "randint a b g =
     (if b < a then (Inl ValueError, g)
      else (case randbelow (nat (b - a + 1)) g of (r, g') \<Rightarrow> (Inr (a + int r), g')))"

text \<open>
  \<open>random.shuffle\<close>: for \<open>i\<close> from the last index down to 1, swap the entries at \<open>i\<close> and at
  \<open>randbelow (i + 1)\<close>.
\<close>

fun shuffle_down :: "nat \<Rightarrow> 'a list \<Rightarrow> rng \<Rightarrow> 'a list \<times> rng" where
  "shuffle_down 0 xs g = (xs, g)"
| "shuffle_down (Suc i) xs g =
     (case randbelow (Suc i + 1) g of
        (j, g') \<Rightarrow> shuffle_down i (xs[Suc i := xs ! j, j := xs ! Suc i]) g')"

definition shuffle :: "'a list \<Rightarrow> rng \<Rightarrow> 'a list \<times> rng" where
  "shuffle xs g = shuffle_down (length xs - 1) xs g"

section \<open>The dataset\<close>

record dataset =
  filepaths_and_text :: "string list list"
  ds_n_spks :: int
  ds_cleaners :: "string list"
  ds_add_blank :: bool
  ds_n_fft :: nat
  ds_n_mels :: nat
  ds_sample_rate :: nat
  ds_hop_length :: nat
  ds_win_length :: nat
  ds_f_min :: real
  ds_f_max :: real
  data_parameters :: "real \<times> real"

text \<open>
  \<open>TextMelDataset.__init__\<close>, which reads the manifest with the default separator and
  shuffles it with the seeded generator. \<open>data_parameters\<close> is the pair of \<open>mel_mean\<close> and
  \<open>mel_std\<close>. The generator left by the shuffle is returned with the dataset: it is the one
  later retries draw from.
\<close>

definition TextMelDataset_init ::
  "env \<Rightarrow> string \<Rightarrow> int \<Rightarrow> string list \<Rightarrow> bool \<Rightarrow> nat \<Rightarrow> nat \<Rightarrow> nat \<Rightarrow> nat \<Rightarrow> nat
     \<Rightarrow> real \<Rightarrow> real \<Rightarrow> (real \<times> real) option \<Rightarrow> int option \<Rightarrow> error + dataset \<times> rng" where
  "TextMelDataset_init io filelist_path n_spks_arg cleaners add_blank n_fft n_mels sample_rate
       hop_length win_length f_min f_max data_parameters_arg seed =
     (case parse_filelist io filelist_path ''|'' of
        Inl e \<Rightarrow> Inl e
      | Inr recs \<Rightarrow>
          (case shuffle recs (random_seed io seed) of
             (shuffled, g) \<Rightarrow>
               Inr (\<lparr>filepaths_and_text = shuffled, ds_n_spks = n_spks_arg,
                     ds_cleaners = cleaners, ds_add_blank = add_blank, ds_n_fft = n_fft,
                     ds_n_mels = n_mels, ds_sample_rate = sample_rate,
                     ds_hop_length = hop_length, ds_win_length = win_length,
                     ds_f_min = f_min, ds_f_max = f_max,
                     data_parameters =
                       (case data_parameters_arg of None \<Rightarrow> (0, 1) | Some p \<Rightarrow> p)\<rparr>, g)))"

text \<open>\<open>TextMelDataset.__len__\<close>\<close>

definition dataset_len :: "dataset \<Rightarrow> nat" where
  "dataset_len self = length (filepaths_and_text self)"

text \<open>
  Modelled from the spec: \<open>intersperse\<close> lives in \<open>pflow/utils/utils.py\<close>, which is not among
  the sources. The spec has it put the blank id between every adjacent pair of symbols, and
  before the first and after the last.
\<close>

fun intersperse :: "'a list \<Rightarrow> 'a \<Rightarrow> 'a list" where
  "intersperse [] item = [item]"
| "intersperse (v # vs) item = item # v # intersperse vs item"

text \<open>
  Modelled from the spec: \<open>normalize\<close> lives in \<open>pflow/utils/model.py\<close>, which is not among
  the sources. The spec has it map every value to \<open>(value - mel_mean) / mel_std\<close>.
\<close>

definition normalize :: "real tensor2 \<Rightarrow> real \<Rightarrow> real \<Rightarrow> real tensor2" where
  "normalize data mu std = data\<lparr>rows := map (map (\<lambda>v. (v - mu) / std)) (rows data)\<rparr>"

text \<open>
  \<open>get_text\<close> reads the blank flag of the dataset, not its own argument.
  \<open>torch.IntTensor\<close> keeps the symbol ids as they are.
\<close>

definition get_text :: "env \<Rightarrow> dataset \<Rightarrow> string \<Rightarrow> bool \<Rightarrow> error + int list" where
  "get_text io self text add_blank =
     (case text_to_sequence io text (ds_cleaners self) of
        Inl e \<Rightarrow> Inl e
      | Inr text_norm \<Rightarrow>
          Inr (if ds_add_blank self then intersperse text_norm 0 else text_norm))"

definition get_mel :: "env \<Rightarrow> dataset \<Rightarrow> string \<Rightarrow> error + real tensor2 \<times> real tensor2" where
  "get_mel io self filepath =
     (case ta_load io filepath of
        Inl e \<Rightarrow> Inl e
      | Inr (audio, sr) \<Rightarrow>
          (if sr \<noteq> ds_sample_rate self then Inl AssertionError
           else (let mel = mel_spectrogram io audio (ds_n_fft self) (ds_n_mels self)
                             (ds_sample_rate self) (ds_hop_length self) (ds_win_length self)
                             (ds_f_min self) (ds_f_max self)
                 in Inr (normalize mel (fst (data_parameters self)) (snd (data_parameters self)),
                         audio))))"

text \<open>The fields of a manifest record that \<open>get_datapoint\<close> reads, in the order it reads them.\<close>

definition record_fields ::
  "env \<Rightarrow> dataset \<Rightarrow> string list \<Rightarrow> error + string \<times> int option \<times> string" where
  "record_fields io self filepath_and_text =
     (if ds_n_spks self > 1
      then (case py_index filepath_and_text 0 of
              Inl e \<Rightarrow> Inl e
            | Inr filepath \<Rightarrow>
           (case py_index filepath_and_text 1 of
              Inl e \<Rightarrow> Inl e
            | Inr spk_field \<Rightarrow>
           (case py_int io spk_field of
              Inl e \<Rightarrow> Inl e
            | Inr spk \<Rightarrow>
           (case py_index filepath_and_text 2 of
              Inl e \<Rightarrow> Inl e
            | Inr text \<Rightarrow> Inr (filepath, Some spk, text)))))
      else (case py_index filepath_and_text 0 of
              Inl e \<Rightarrow> Inl e
            | Inr filepath \<Rightarrow>
           (case py_index filepath_and_text 1 of
              Inl e \<Rightarrow> Inl e
            | Inr text \<Rightarrow> Inr (filepath, None, text))))"

definition get_datapoint :: "env \<Rightarrow> dataset \<Rightarrow> string list \<Rightarrow> error + real sample" where
  "get_datapoint io self filepath_and_text =
     (case record_fields io self filepath_and_text of
        Inl e \<Rightarrow> Inl e
      | Inr (filepath, spk, text) \<Rightarrow>
     (case get_text io self text (ds_add_blank self) of
        Inl e \<Rightarrow> Inl e
      | Inr text' \<Rightarrow>
     (case get_mel io self filepath of
        Inl e \<Rightarrow> Inl e
      | Inr (mel, audio) \<Rightarrow>
          Inr \<lparr>item_x = text', item_y = mel, item_spk = spk, item_wav = audio\<rparr>)))"

text \<open>
  \<open>TextMelDataset.__getitem__\<close>. The retry is a recursive call, and the interpreter bounds
  the depth of calls: \<open>frames\<close> is the number of nested calls still allowed, and the call
  that would exceed it raises a RecursionError.
\<close>

fun getitem :: "nat \<Rightarrow> env \<Rightarrow> dataset \<Rightarrow> int \<Rightarrow> rng \<Rightarrow> (error + real sample) \<times> rng" where
  "getitem 0 io self index g = (Inl RecursionError, g)"
| "getitem (Suc frames) io self index g =
     (case py_index (filepaths_and_text self) index of
        Inl e \<Rightarrow> (Inl e, g)
      | Inr filepath_and_text \<Rightarrow>
     (case get_datapoint io self filepath_and_text of
        Inl e \<Rightarrow> (Inl e, g)
      | Inr datapoint \<Rightarrow>
          (if ncol (item_wav datapoint) < 66150
           then (case randint 0 (int (length (filepaths_and_text self)) - 1) g of
                   (Inl e, g') \<Rightarrow> (Inl e, g')
                 | (Inr j, g') \<Rightarrow> getitem frames io self j g')
           else (Inr datapoint, g))))"

section \<open>The data module\<close>

text \<open>The hyperparameters that \<open>save_hyperparameters\<close> stores.\<close>

record hparams =
  hp_name :: string
  hp_train_filelist_path :: string
  hp_valid_filelist_path :: string
  hp_batch_size :: nat
  hp_num_workers :: nat
  hp_pin_memory :: bool
  hp_cleaners :: "string list"
  hp_add_blank :: bool
  hp_n_spks :: int
  hp_n_fft :: nat
  hp_n_feats :: nat
  hp_sample_rate :: nat
  hp_hop_length :: nat
  hp_win_length :: nat
  hp_f_min :: real
  hp_f_max :: real
  hp_data_statistics :: "(real \<times> real) option"
  hp_seed :: "int option"

text \<open>The dataset that \<open>setup\<close> builds from a manifest path.\<close>

definition setup_split :: "env \<Rightarrow> hparams \<Rightarrow> string \<Rightarrow> error + dataset \<times> rng" where
  "setup_split io hp filelist_path =
     TextMelDataset_init io filelist_path (hp_n_spks hp) (hp_cleaners hp) (hp_add_blank hp)
       (hp_n_fft hp) (hp_n_feats hp) (hp_sample_rate hp) (hp_hop_length hp) (hp_win_length hp)
       (hp_f_min hp) (hp_f_max hp) (hp_data_statistics hp) (hp_seed hp)"

text \<open>
  The \<open>collate_fn\<close> of \<open>train_dataloader\<close> and of \<open>val_dataloader\<close>:
  \<open>TextMelBatchCollate(self.hparams.n_spks)\<close>, with \<open>get_codes\<close> at its default.
\<close>

definition dataloader_collate_fn :: "('a, 'c) codec \<Rightarrow> hparams \<Rightarrow> ('a, 'c) collator" where
  "dataloader_collate_fn EncodecWrapper hp = TextMelBatchCollate_init EncodecWrapper (hp_n_spks hp) True"

section \<open>Concrete inputs\<close>

text \<open>
  A codec that reports the number of samples it was given, two samples (one with four
  waveform samples, one with seven hundred, 512 of value 3 and then 188 of value 4), and
  the batch the collator makes of them when the compatibility factor is 2: the mel
  length is padded to 2, the waveform to 512.
\<close>

definition demo_codec :: "(int, nat) codec" where
  "demo_codec = \<lparr>training = True, forward = (\<lambda>mode w. Inr (nlast w)), squeeze_transpose = Inr\<rparr>"

definition demo_short :: "int sample" where
  "demo_short = \<lparr>item_x = [5, 6],
                 item_y = \<lparr>nrow = 2, ncol = 2, rows = [[1, 2], [3, 4]]\<rparr>,
                 item_spk = None,
                 item_wav = \<lparr>nrow = 1, ncol = 4, rows = [[7, 8, 9, 10]]\<rparr>\<rparr>"

definition demo_long :: "int sample" where
  "demo_long = \<lparr>item_x = [5],
                item_y = \<lparr>nrow = 2, ncol = 1, rows = [[1], [2]]\<rparr>,
                item_spk = None,
                item_wav = \<lparr>nrow = 1, ncol = 700, rows = [replicate 512 3 @ replicate 188 4]\<rparr>\<rparr>"

definition demo_collator :: "(int, nat) collator" where
  "demo_collator = TextMelBatchCollate_init demo_codec 1 True"

definition demo_out :: "(int, nat) batch" where
  "demo_out =
     \<lparr>b_x = \<lparr>nrow = 2, ncol = 2, rows = [[5, 6], [5, 0]]\<rparr>,
      b_x_lengths = [2, 1],
      b_y = \<lparr>nbatch = 2, nchan = 2, nlast = 2, slabs = [[[1, 2], [3, 4]], [[1, 0], [2, 0]]]\<rparr>,
      b_y_lengths = [2, 1],
      b_spks = None,
      b_wav = \<lparr>nbatch = 2, nchan = 1, nlast = 512,
               slabs = [[[7, 8, 9, 10] @ replicate 508 0], [replicate 512 3]]\<rparr>,
      b_wav_lengths = [4, 512],
      b_codes = 512,
      b_codes_lengths = Some [1, 2],
      b_prompt_spec =
        \<lparr>nbatch = 2, nchan = 2, nlast = 2, slabs = [[[1, 2], [3, 4]], [[1, 0], [2, 0]]]\<rparr>,
      b_prompt_lengths = [2, 1],
      b_prompt_codes = 512,
      b_prompt_codes_lengths = Some [1, 2]\<rparr>"

text \<open>
  A sample whose mel has one row, and the batch the collator makes of the two-row sample
  and of it when the compatibility factor is 2.
\<close>

definition demo_one_row :: "int sample" where
  "demo_one_row = \<lparr>item_x = [7],
                   item_y = \<lparr>nrow = 1, ncol = 2, rows = [[5, 6]]\<rparr>,
                   item_spk = None,
                   item_wav = \<lparr>nrow = 1, ncol = 4, rows = [[1, 2, 3, 4]]\<rparr>\<rparr>"

definition demo_broadcast_out :: "(int, nat) batch" where
  "demo_broadcast_out =
     \<lparr>b_x = \<lparr>nrow = 2, ncol = 2, rows = [[5, 6], [7, 0]]\<rparr>,
      b_x_lengths = [2, 1],
      b_y = \<lparr>nbatch = 2, nchan = 2, nlast = 2, slabs = [[[1, 2], [3, 4]], [[5, 6], [5, 6]]]\<rparr>,
      b_y_lengths = [2, 2],
      b_spks = None,
      b_wav = \<lparr>nbatch = 2, nchan = 1, nlast = 512,
               slabs = [[[7, 8, 9, 10] @ replicate 508 0], [[1, 2, 3, 4] @ replicate 508 0]]\<rparr>,
      b_wav_lengths = [4, 4],
      b_codes = 512,
      b_codes_lengths = Some [1, 1],
      b_prompt_spec =
        \<lparr>nbatch = 2, nchan = 2, nlast = 2, slabs = [[[1, 2], [3, 4]], [[5, 6], [5, 6]]]\<rparr>,
      b_prompt_lengths = [2, 2],
      b_prompt_codes = 512,
      b_prompt_codes_lengths = Some [1, 1]\<rparr>"

text \<open>Hyperparameters with a hop length of 512, one speaker.\<close>

definition demo_hparams :: hparams where
  "demo_hparams =
     \<lparr>hp_name = ''demo'', hp_train_filelist_path = ''train.txt'',
      hp_valid_filelist_path = ''val.txt'', hp_batch_size = 2, hp_num_workers = 0,
      hp_pin_memory = False, hp_cleaners = [''english_cleaners2''], hp_add_blank = True,
      hp_n_spks = 1, hp_n_fft = 1024, hp_n_feats = 80, hp_sample_rate = 22050,
      hp_hop_length = 512, hp_win_length = 1024, hp_f_min = 0, hp_f_max = 8000,
      hp_data_statistics = None, hp_seed = Some 1234\<rparr>"

text \<open>
  A file system with one manifest of two lines, the second one blank, and three audio
  files: one of 50000 samples and one of 66150 samples at 22050 Hz, one at 16000 Hz. The
  stand-in for the mel transform returns a zero matrix with one frame for every full
  window; the stand-in for the text encoder returns the character codes.
\<close>

definition demo_env :: env where
  "demo_env =
     \<lparr>open_lines = (\<lambda>path. if path = ''list.txt''
                             then Inr [''a.wav|hello'' @ [CHR 0x0A], [CHR 0x0A]]
                             else Inl OSError),
      ta_load = (\<lambda>path.
         if path = ''short.wav''
         then Inr (\<lparr>nrow = 1, ncol = 50000, rows = [replicate 50000 0]\<rparr>, 22050)
         else if path = ''long.wav''
         then Inr (\<lparr>nrow = 1, ncol = 66150, rows = [replicate 66150 0]\<rparr>, 22050)
         else if path = ''rate.wav''
         then Inr (\<lparr>nrow = 1, ncol = 66150, rows = [replicate 66150 0]\<rparr>, 16000)
         else Inl OSError),
      mel_spectrogram = (\<lambda>audio n_fft n_mels sample_rate hop_length win_length f_min f_max.
         zeros2 n_mels ((ncol audio - n_fft) div hop_length + 1)),
      text_to_sequence = (\<lambda>text cleaners. Inr (map (\<lambda>c. int (of_char c)) text)),
      py_int = (\<lambda>s. if s = ''0'' then Inr 0 else if s = ''1'' then Inr 1 else Inl ValueError),
      random_seed = (\<lambda>seed k. 1)\<rparr>"

definition demo_dataset :: dataset where
  "demo_dataset =
     \<lparr>filepaths_and_text = [[''short.wav'', ''hi''], [''long.wav'', ''hi''], [''rate.wav'', ''hi'']],
      ds_n_spks = 1, ds_cleaners = [], ds_add_blank = True, ds_n_fft = 1024, ds_n_mels = 2,
      ds_sample_rate = 22050, ds_hop_length = 256, ds_win_length = 1024, ds_f_min = 0,
      ds_f_max = 8000, data_parameters = (0, 1)\<rparr>"

definition demo_datapoint :: "real sample" where
  "demo_datapoint =
     \<lparr>item_x = [0, 104, 0, 105, 0],
      item_y = \<lparr>nrow = 2, ncol = 255, rows = replicate 2 (replicate 255 0)\<rparr>,
      item_spk = None,
      item_wav = \<lparr>nrow = 1, ncol = 66150, rows = [replicate 66150 0]\<rparr>\<rparr>"

definition demo_short_datapoint :: "real sample" where
  "demo_short_datapoint =
     \<lparr>item_x = [0, 104, 0, 105, 0],
      item_y = \<lparr>nrow = 2, ncol = 192, rows = replicate 2 (replicate 192 0)\<rparr>,
      item_spk = None,
      item_wav = \<lparr>nrow = 1, ncol = 50000, rows = [replicate 50000 0]\<rparr>\<rparr>"

section \<open>Facts about the helpers\<close>

lemma py_max_Inr:
  assumes "py_max vs = Inr m"
  shows "vs \<noteq> [] \<and> m = Max (set vs)"
proof (cases vs)
  case Nil
  then show ?thesis using assms by simp
next
  case (Cons v rest)
  then show ?thesis using assms Max.set_eq_fold[of v rest] by simp
qed

lemma fix_len_ge: "0 < factor \<Longrightarrow> len \<le> fix_len_compatibility factor len"
proof -
  assume f: "0 < factor"
  have "(len + factor - 1) div factor * factor + (len + factor - 1) mod factor = len + factor - 1"
    by simp
  moreover have "(len + factor - 1) mod factor \<le> factor - 1"
    using f by (metis Suc_pred' less_Suc_eq_le mod_less_divisor)
  ultimately have "len \<le> (len + factor - 1) div factor * factor"
    using f by linarith
  then show ?thesis by (simp add: fix_len_compatibility_def)
qed

lemma fix_len_mod: "fix_len_compatibility factor len mod factor = 0"
  by (simp add: fix_len_compatibility_def)

lemma setitem3_Inr:
  "setitem3 t i L src = Inr t' \<Longrightarrow>
     i < nbatch t \<and> (\<exists>blk. broadcast2 (nchan t) (min L (nlast t)) src = Inr blk \<and>
        t' = t\<lparr>slabs := (slabs t)[i := put_slab (min L (nlast t)) blk (slabs t ! i)]\<rparr>)"
  by (auto simp: setitem3_def split: if_splits sum.splits)

lemma assign_all_dims:
  "assign_all i srcs t = Inr t' \<Longrightarrow>
     nbatch t' = nbatch t \<and> nchan t' = nchan t \<and> nlast t' = nlast t \<and>
     length (slabs t') = length (slabs t)"
proof (induction srcs arbitrary: i t)
  case Nil
  then show ?case by simp
next
  case (Cons src rest)
  then obtain t1 where s1: "setitem3 t i (ncol src) src = Inr t1"
    and r: "assign_all (Suc i) rest t1 = Inr t'"
    by (auto split: sum.splits)
  from setitem3_Inr[OF s1] Cons.IH[OF r] show ?case by auto
qed

lemma assign_all_before:
  "assign_all i srcs t = Inr t' \<Longrightarrow> j < i \<Longrightarrow> slabs t' ! j = slabs t ! j"
proof (induction srcs arbitrary: i t)
  case Nil
  then show ?case by simp
next
  case (Cons src rest)
  then obtain t1 where s1: "setitem3 t i (ncol src) src = Inr t1"
    and r: "assign_all (Suc i) rest t1 = Inr t'"
    by (auto split: sum.splits)
  have "slabs t' ! j = slabs t1 ! j" using Cons.IH[OF r] Cons.prems(2) by simp
  also have "\<dots> = slabs t ! j" using setitem3_Inr[OF s1] Cons.prems(2) by auto
  finally show ?case .
qed

lemma assign_all_at:
  "assign_all i srcs t = Inr t' \<Longrightarrow> k < length srcs \<Longrightarrow> length (slabs t) = nbatch t \<Longrightarrow>
     \<exists>blk. broadcast2 (nchan t) (min (ncol (srcs ! k)) (nlast t)) (srcs ! k) = Inr blk \<and>
           slabs t' ! (i + k) = put_slab (min (ncol (srcs ! k)) (nlast t)) blk (slabs t ! (i + k))"
proof (induction srcs arbitrary: i t k)
  case Nil
  then show ?case by simp
next
  case (Cons src rest)
  then obtain t1 where s1: "setitem3 t i (ncol src) src = Inr t1"
    and r: "assign_all (Suc i) rest t1 = Inr t'"
    by (auto split: sum.splits)
  from setitem3_Inr[OF s1] obtain blk where i: "i < nbatch t"
    and blk: "broadcast2 (nchan t) (min (ncol src) (nlast t)) src = Inr blk"
    and t1: "t1 = t\<lparr>slabs := (slabs t)[i := put_slab (min (ncol src) (nlast t)) blk (slabs t ! i)]\<rparr>"
    by auto
  show ?case
  proof (cases k)
    case 0
    have "slabs t' ! i = slabs t1 ! i" using assign_all_before[OF r, of i] by simp
    also have "\<dots> = put_slab (min (ncol src) (nlast t)) blk (slabs t ! i)"
      using t1 i Cons.prems(3) by simp
    finally show ?thesis using blk 0 by simp
  next
    case (Suc k')
    have len1: "length (slabs t1) = nbatch t1" using t1 Cons.prems(3) by simp
    from Suc Cons.prems(2) have k': "k' < length rest" by simp
    from Cons.IH[OF r k' len1] obtain blk' where
      b': "broadcast2 (nchan t1) (min (ncol (rest ! k')) (nlast t1)) (rest ! k') = Inr blk'"
      and s': "slabs t' ! (Suc i + k') =
               put_slab (min (ncol (rest ! k')) (nlast t1)) blk' (slabs t1 ! (Suc i + k'))"
      by blast
    have "slabs t1 ! (Suc i + k') = slabs t ! (Suc i + k')" using t1 by simp
    then show ?thesis using b' s' t1 Suc by simp
  qed
qed

lemma collate_step_Inr:
  "collate_step W i item s = Inr s' \<Longrightarrow>
     setitem3 (l_y s) i (ncol (item_y item)) (item_y item) = Inr (l_y s') \<and>
     setitem2 (l_x s) i (length (item_x item)) (item_x item) = Inr (l_x s') \<and>
     setitem3 (l_wav s) i (ncol (truncate_wav W (item_wav item))) (truncate_wav W (item_wav item))
       = Inr (l_wav s') \<and>
     l_y_lengths s' = l_y_lengths s @ [ncol (item_y item)] \<and>
     l_x_lengths s' = l_x_lengths s @ [length (item_x item)] \<and>
     l_wav_lengths s' = l_wav_lengths s @ [ncol (truncate_wav W (item_wav item))] \<and>
     l_spks s' = l_spks s @ [item_spk item]"
  by (auto simp: collate_step_def Let_def split: sum.splits)

lemma collate_loop_Inr:
  "collate_loop W i items s = Inr s' \<Longrightarrow>
     assign_all i (map item_y items) (l_y s) = Inr (l_y s') \<and>
     assign_all i (map (\<lambda>item. truncate_wav W (item_wav item)) items) (l_wav s) = Inr (l_wav s') \<and>
     l_y_lengths s' = l_y_lengths s @ map (\<lambda>item. ncol (item_y item)) items \<and>
     l_x_lengths s' = l_x_lengths s @ map (\<lambda>item. length (item_x item)) items \<and>
     l_wav_lengths s' = l_wav_lengths s @ map (\<lambda>item. ncol (truncate_wav W (item_wav item))) items \<and>
     l_spks s' = l_spks s @ map item_spk items"
proof (induction items arbitrary: i s)
  case Nil
  then show ?case by simp
next
  case (Cons item rest)
  then obtain s1 where s1: "collate_step W i item s = Inr s1"
    and r: "collate_loop W (Suc i) rest s1 = Inr s'"
    by (auto split: sum.splits)
  from collate_step_Inr[OF s1] Cons.IH[OF r] show ?case by simp
qed


lemma y_max_length_of_Inr:
  assumes "y_max_length_of factor batch = Inr T"
  shows "batch \<noteq> [] \<and>
         T = fix_len_compatibility factor (Max (set (map (\<lambda>item. ncol (item_y item)) batch)))"
proof -
  from assms obtain m where m: "py_max (map (\<lambda>item. ncol (item_y item)) batch) = Inr m"
    and T: "T = fix_len_compatibility factor m"
    by (auto simp: y_max_length_of_def split: sum.splits)
  from py_max_Inr[OF m] T show ?thesis by simp
qed

lemma init_state_Inr:
  assumes "init_state factor batch = Inr (W, s0)"
  shows "\<exists>T. y_max_length_of factor batch = Inr T \<and> W = T * 256 \<and>
             l_y s0 = zeros3 (length batch) (nrow (item_y (hd batch))) T \<and>
             l_wav s0 = zeros3 (length batch) 1 W \<and>
             l_y_lengths s0 = [] \<and> l_x_lengths s0 = [] \<and> l_wav_lengths s0 = [] \<and> l_spks s0 = []"
  using assms
  by (auto simp: init_state_def Let_def split: sum.splits list.splits)

lemma codes_step_Inr:
  assumes "codes_step self s = (Inr (codes, cl), self')"
  shows "n_spks self' = n_spks self \<and> get_codes self' = get_codes self \<and>
         (if get_codes self
          then codes \<noteq> None \<and> cl = Some (map (\<lambda>wav_len. 1 + wav_len div 320) (l_wav_lengths s))
          else codes = None \<and> cl = None)"
  using assms
  by (auto simp: codes_step_def batched_encodec_def Let_def
           split: if_splits sum.splits prod.splits option.splits)

lemma finish_Inr:
  assumes "finish self s codes cl = Inr b"
  shows "codes \<noteq> None \<and> b_y b = l_y s \<and> b_wav b = l_wav s \<and> b_x b = l_x s \<and>
         b_y_lengths b = l_y_lengths s \<and> b_wav_lengths b = l_wav_lengths s \<and>
         b_x_lengths b = l_x_lengths s \<and>
         b_codes_lengths b = (if get_codes self then cl else None)"
  using assms
  by (auto simp: finish_def split: if_splits sum.splits option.splits)

lemma call_Inr:
  assumes "fst (call factor self batch) = Inr b"
  shows "\<exists>T. y_max_length_of factor batch = Inr T \<and> get_codes self \<and>
     assign_all 0 (map item_y batch) (zeros3 (length batch) (nrow (item_y (hd batch))) T)
       = Inr (b_y b) \<and>
     assign_all 0 (map (\<lambda>item. truncate_wav (T * 256) (item_wav item)) batch)
                  (zeros3 (length batch) 1 (T * 256))
       = Inr (b_wav b) \<and>
     b_y_lengths b = map (\<lambda>item. ncol (item_y item)) batch \<and>
     b_wav_lengths b = map (\<lambda>item. ncol (truncate_wav (T * 256) (item_wav item))) batch \<and>
     b_codes_lengths b = Some (map (\<lambda>wav_len. 1 + wav_len div 320) (b_wav_lengths b))"
proof -
  from assms obtain W s0 s codes cl self' where
    i: "init_state factor batch = Inr (W, s0)" and
    l: "collate_loop W 0 batch s0 = Inr s" and
    c: "codes_step self s = (Inr (codes, cl), self')" and
    f: "finish self' s codes cl = Inr b"
    by (auto simp: call_def split: sum.splits prod.splits)
  from init_state_Inr[OF i] obtain T where T: "y_max_length_of factor batch = Inr T"
    and W: "W = T * 256"
    and y0: "l_y s0 = zeros3 (length batch) (nrow (item_y (hd batch))) T"
    and w0: "l_wav s0 = zeros3 (length batch) 1 W"
    and e: "l_y_lengths s0 = []" "l_wav_lengths s0 = []"
    by blast
  note L = collate_loop_Inr[OF l]
  note F = finish_Inr[OF f]
  note C = codes_step_Inr[OF c]
  from F C have g: "get_codes self" by (auto split: if_splits)
  show ?thesis
    using T g L F C y0 w0 e W by (intro exI[of _ T]) simp
qed

lemma demo_call: "fst (call 2 demo_collator [demo_short, demo_long]) = Inr demo_out"
  by code_simp

lemma fix_len_lt: "0 < factor \<Longrightarrow> fix_len_compatibility factor len < len + factor"
proof -
  assume f: "0 < factor"
  have "(len + factor - 1) div factor * factor \<le> len + factor - 1"
    by simp
  then have "(len + factor - 1) div factor * factor < len + factor"
    using f by linarith
  then show ?thesis using f by (simp add: fix_len_compatibility_def)
qed

lemma ncol_truncate_wav: "ncol (truncate_wav W w) = min (ncol w) W"
  by (simp add: truncate_wav_def slice_cols_def min_def)

lemma call_dims:
  assumes "fst (call factor self batch) = Inr b"
  shows "\<exists>T. y_max_length_of factor batch = Inr T \<and> nlast (b_y b) = T \<and>
             nlast (b_wav b) = T * 256 \<and> nbatch (b_y b) = length batch \<and>
             nbatch (b_wav b) = length batch \<and> nchan (b_wav b) = 1 \<and>
             nchan (b_y b) = nrow (item_y (hd batch))"
proof -
  from call_Inr[OF assms] obtain T where T: "y_max_length_of factor batch = Inr T"
    and y: "assign_all 0 (map item_y batch) (zeros3 (length batch) (nrow (item_y (hd batch))) T)
              = Inr (b_y b)"
    and w: "assign_all 0 (map (\<lambda>item. truncate_wav (T * 256) (item_wav item)) batch)
                  (zeros3 (length batch) 1 (T * 256)) = Inr (b_wav b)"
    by blast
  from assign_all_dims[OF y] assign_all_dims[OF w] T show ?thesis
    by (simp add: zeros3_def)
qed

lemma broadcast2_exact: "nrow src = r \<Longrightarrow> ncol src = c \<Longrightarrow> broadcast2 r c src = Inr (rows src)"
  by (simp add: broadcast2_def)

lemma put_slab_const:
  "put_slab c blk (replicate (length blk) z) = map (\<lambda>new. new @ drop c z) blk"
  by (induction blk) (simp_all add: put_slab_def)

lemma wf2_rows: "wf2 t \<Longrightarrow> length (rows t) = nrow t \<and> (\<forall>r. r \<in> set (rows t) \<longrightarrow> length r = ncol t)"
  by (auto simp: wf2_def list_all_iff)

lemma Max_ncol_ge:
  assumes "i < length batch"
  shows "ncol (item_y (batch ! i)) \<le> Max (set (map (\<lambda>item. ncol (item_y item)) batch))"
proof -
  have "batch ! i \<in> set batch" using assms by simp
  then have "ncol (item_y (batch ! i)) \<in> set (map (\<lambda>item. ncol (item_y item)) batch)"
    by auto
  then show ?thesis by (intro Max_ge) auto
qed

lemma finish_cong:
  "n_spks a = n_spks c \<Longrightarrow> get_codes a = get_codes c \<Longrightarrow>
     finish a s codes cl = finish c s codes cl"
  by (simp add: finish_def)

lemma codes_step_again:
  assumes "codes_step self s = (r, self')"
  shows "fst (codes_step self' s) = r \<and>
         n_spks (snd (codes_step self' s)) = n_spks self' \<and>
         get_codes (snd (codes_step self' s)) = get_codes self'"
  using assms
  by (auto simp: codes_step_def batched_encodec_def Let_def
           split: if_splits option.splits sum.splits prod.splits)

lemma replicate_255: "(0::real) # replicate 254 0 = replicate 255 0"
  using replicate_Suc[of 254 "0::real"] by simp

lemma demo_get_datapoint:
  "get_datapoint demo_env demo_dataset [''long.wav'', ''hi''] = Inr demo_datapoint"
  by (simp add: get_datapoint_def record_fields_def py_index_def get_text_def get_mel_def
      demo_env_def demo_dataset_def demo_datapoint_def normalize_def zeros2_def replicate_255)

lemma demo_getitem:
  "fst (getitem (Suc (Suc 0)) demo_env demo_dataset 0 (\<lambda>k. 1)) = Inr demo_datapoint"
  by (simp add: get_datapoint_def record_fields_def py_index_def get_text_def get_mel_def
      demo_env_def demo_dataset_def demo_datapoint_def normalize_def zeros2_def
      randint_def randbelow_def replicate_255)

lemma getitem_Inr:
  "getitem frames io self index g = (Inr dp, g') \<Longrightarrow> 66150 \<le> ncol (item_wav dp)"
proof (induction frames arbitrary: index g)
  case 0
  then show ?case by simp
next
  case (Suc frames)
  then show ?case
    by (auto split: sum.splits if_splits prod.splits)
qed

lemma randint_range:
  assumes "0 < n"
  shows "\<exists>j. randint 0 (int n - 1) g = (Inr j, \<lambda>k. g (Suc k)) \<and> 0 \<le> j \<and> j < int n"
proof -
  have "nat (int n - 1 - 0 + 1) = n" by simp
  moreover have "g 0 mod n < n" using assms by simp
  ultimately show ?thesis using assms by (simp add: randint_def randbelow_def)
qed

lemma py_index_Inr: "py_index xs i = Inr v \<Longrightarrow> xs \<noteq> []"
  by (auto simp: py_index_def split: if_splits)

lemma replicate_192: "(0::real) # replicate 191 0 = replicate 192 0"
  using replicate_Suc[of 191 "0::real"] by simp

lemma demo_get_short:
  "get_datapoint demo_env demo_dataset [''short.wav'', ''hi''] = Inr demo_short_datapoint"
  by (simp add: get_datapoint_def record_fields_def py_index_def get_text_def get_mel_def
      demo_env_def demo_dataset_def demo_short_datapoint_def normalize_def zeros2_def
      replicate_192)

lemma length_intersperse: "length (intersperse vs item) = 2 * length vs + 1"
  by (induction vs) simp_all

lemma intersperse_odd: "k < length vs \<Longrightarrow> intersperse vs item ! Suc (2 * k) = vs ! k"
proof (induction vs arbitrary: k)
  case Nil
  then show ?case by simp
next
  case (Cons v vs)
  then show ?case by (cases k) simp_all
qed

lemma intersperse_even: "k \<le> length vs \<Longrightarrow> intersperse vs item ! (2 * k) = item"
proof (induction vs arbitrary: k)
  case Nil
  then show ?case by simp
next
  case (Cons v vs)
  then show ?case by (cases k) simp_all
qed

lemma map_err_total:
  "(\<And>v. v \<in> set vs \<Longrightarrow> f v = Inr (h v)) \<Longrightarrow> map_err f vs = Inr (map h vs)"
  by (induction vs) simp_all

lemma split_from_nonempty: "split_from sep acc s \<noteq> []"
  by (induction sep acc s rule: split_from.induct) simp_all

lemma length_shuffle_down: "length (fst (shuffle_down i xs g)) = length xs"
  by (induction i arbitrary: xs g) (simp_all split: prod.splits)

lemma length_shuffle: "length (fst (shuffle xs g)) = length xs"
  by (simp add: shuffle_def length_shuffle_down)

section \<open>The claims\<close>

text \<open>
  C1, as amended. For every batch the collator returns, the last dimension of the padded
  mel tensor is the largest mel length of the batch rounded up by the length-compatibility
  function: it is at least that length, less than that length plus the factor, and a
  multiple of the factor. The last dimension of the padded waveform tensor is the padded
  mel length times 256, whatever hop length is configured.
\<close>

theorem padded_dims:
  assumes "fst (call factor self batch) = Inr b" and "0 < factor"
  shows "nlast (b_y b)
           = fix_len_compatibility factor (Max (set (map (\<lambda>item. ncol (item_y item)) batch))) \<and>
         Max (set (map (\<lambda>item. ncol (item_y item)) batch)) \<le> nlast (b_y b) \<and>
         nlast (b_y b) < Max (set (map (\<lambda>item. ncol (item_y item)) batch)) + factor \<and>
         nlast (b_y b) mod factor = 0 \<and>
         nlast (b_wav b) = nlast (b_y b) * 256"
proof -
  from call_dims[OF assms(1)] obtain T where T: "y_max_length_of factor batch = Inr T"
    and d: "nlast (b_y b) = T" "nlast (b_wav b) = T * 256"
    by blast
  from y_max_length_of_Inr[OF T] d fix_len_ge[OF assms(2)] fix_len_lt[OF assms(2)] fix_len_mod
  show ?thesis by simp
qed

theorem padded_dims_witness:
  "fst (call 2 demo_collator [demo_short, demo_long]) = Inr demo_out \<and>
   (0::nat) < 2 \<and>
   (nlast (b_y demo_out)
      = fix_len_compatibility 2
          (Max (set (map (\<lambda>item. ncol (item_y item)) [demo_short, demo_long]))) \<and>
    Max (set (map (\<lambda>item. ncol (item_y item)) [demo_short, demo_long])) \<le> nlast (b_y demo_out) \<and>
    nlast (b_y demo_out)
      < Max (set (map (\<lambda>item. ncol (item_y item)) [demo_short, demo_long])) + 2 \<and>
    nlast (b_y demo_out) mod 2 = 0 \<and>
    nlast (b_wav demo_out) = nlast (b_y demo_out) * 256) \<and>
   nlast (b_y demo_out) = 2 \<and> nlast (b_wav demo_out) = 512"
proof -
  have h2: "(0::nat) < 2" by simp
  have e: "nlast (b_y demo_out) = 2" "nlast (b_wav demo_out) = 512"
    by (simp_all add: demo_out_def)
  from padded_dims[OF demo_call h2] demo_call h2 e show ?thesis by blast
qed

text \<open>
  C1 as stated fails: the data loader's collator, built from hyperparameters with a hop
  length of 512, pads the waveform to 512 samples for a padded mel length of 2, not to
  2 * 512.
\<close>

theorem wav_dim_ignores_hop_length:
  "fst (call 2 (dataloader_collate_fn demo_codec demo_hparams) [demo_short, demo_long])
     = Inr demo_out \<and>
   hp_hop_length demo_hparams = 512 \<and>
   nlast (b_wav demo_out) = 512 \<and>
   nlast (b_y demo_out) * hp_hop_length demo_hparams = 1024 \<and>
   nlast (b_wav demo_out) \<noteq> nlast (b_y demo_out) * hp_hop_length demo_hparams"
proof -
  have "dataloader_collate_fn demo_codec demo_hparams = demo_collator"
    by (simp add: dataloader_collate_fn_def demo_collator_def demo_hparams_def)
  then show ?thesis using demo_call by (simp add: demo_out_def demo_hparams_def)
qed

text \<open>
  C2, as amended. For every batch the collator returns and every item of it whose mel is
  a matrix with as many feature rows as the mel of the batch's first item, the recorded
  mel length is the item's time dimension, the item's slab of the mel tensor cut to that
  length is the item's mel, and every row of the slab is zero from that length on.
\<close>

theorem mel_rows_copied_and_padded:
  assumes ok: "fst (call factor self batch) = Inr b"
    and i: "i < length batch"
    and f: "0 < factor"
    and wf: "wf2 (item_y (batch ! i))"
    and feats: "nrow (item_y (batch ! i)) = nrow (item_y (batch ! 0))"
  shows "b_y_lengths b ! i = ncol (item_y (batch ! i)) \<and>
         map (take (b_y_lengths b ! i)) (slabs (b_y b) ! i) = rows (item_y (batch ! i)) \<and>
         list_all (\<lambda>row. drop (b_y_lengths b ! i) row
                            = replicate (nlast (b_y b) - b_y_lengths b ! i) 0)
                  (slabs (b_y b) ! i)"
proof -
  define yi where "yi = item_y (batch ! i)"
  define F where "F = nrow (item_y (hd batch))"
  from call_Inr[OF ok] obtain T where T: "y_max_length_of factor batch = Inr T"
    and y: "assign_all 0 (map item_y batch) (zeros3 (length batch) F T) = Inr (b_y b)"
    and yl: "b_y_lengths b = map (\<lambda>item. ncol (item_y item)) batch"
    unfolding F_def by blast
  from call_dims[OF ok] T have d: "nlast (b_y b) = T" by auto
  have len: "b_y_lengths b ! i = ncol yi" using yl i by (simp add: yi_def)
  from i have ne: "batch \<noteq> []" by auto
  then have F: "nrow yi = F" using feats by (simp add: yi_def F_def hd_conv_nth)
  have le: "ncol yi \<le> T"
    using y_max_length_of_Inr[OF T] fix_len_ge[OF f] Max_ncol_ge[OF i]
    by (metis le_trans yi_def)
  have k: "i < length (map item_y batch)" using i by simp
  have z: "length (slabs (zeros3 (length batch) F T)) = nbatch (zeros3 (length batch) F T)"
    by (simp add: zeros3_def)
  note assign_all_at[OF y k z]
  then obtain blk where b1: "broadcast2 F (ncol yi) yi = Inr blk"
    and b2: "slabs (b_y b) ! i = put_slab (ncol yi) blk (replicate F (replicate T 0))"
    using i le by (auto simp: zeros3_def yi_def min_def)
  from b1 F have blk: "blk = rows yi" by (simp add: broadcast2_exact)
  from wf2_rows[OF wf] have rl: "length (rows yi) = F" and rc: "\<forall>r. r \<in> set (rows yi) \<longrightarrow> length r = ncol yi"
    using F by (auto simp: yi_def)
  have slab: "slabs (b_y b) ! i = map (\<lambda>new. new @ replicate (T - ncol yi) 0) (rows yi)"
    using b2 blk rl put_slab_const[of "ncol yi" "rows yi" "replicate T 0"] by simp
  have p1: "map (take (ncol yi)) (slabs (b_y b) ! i) = rows yi"
    unfolding slab using rc by (simp add: map_idI)
  have p2: "list_all (\<lambda>row. drop (ncol yi) row = replicate (T - ncol yi) 0) (slabs (b_y b) ! i)"
    unfolding slab using rc by (simp add: list_all_iff)
  show ?thesis using len p1 p2 d by (simp add: yi_def)
qed

theorem mel_rows_copied_and_padded_witness:
  "fst (call 2 demo_collator [demo_short, demo_long]) = Inr demo_out \<and>
   (1::nat) < length [demo_short, demo_long] \<and>
   (0::nat) < 2 \<and>
   wf2 (item_y ([demo_short, demo_long] ! 1)) \<and>
   nrow (item_y ([demo_short, demo_long] ! 1)) = nrow (item_y ([demo_short, demo_long] ! 0)) \<and>
   b_y_lengths demo_out ! 1 = ncol (item_y ([demo_short, demo_long] ! 1)) \<and>
   map (take (b_y_lengths demo_out ! 1)) (slabs (b_y demo_out) ! 1)
     = rows (item_y ([demo_short, demo_long] ! 1)) \<and>
   list_all (\<lambda>row. drop (b_y_lengths demo_out ! 1) row
                      = replicate (nlast (b_y demo_out) - b_y_lengths demo_out ! 1) 0)
            (slabs (b_y demo_out) ! 1) \<and>
   rows (item_y ([demo_short, demo_long] ! 1)) = [[1], [2]] \<and>
   slabs (b_y demo_out) ! 1 = [[1, 0], [2, 0]]"
proof -
  have h2: "(1::nat) < length [demo_short, demo_long]" by simp
  have h3: "(0::nat) < 2" by simp
  have h4: "wf2 (item_y ([demo_short, demo_long] ! 1))"
    by (simp add: wf2_def demo_long_def)
  have h5: "nrow (item_y ([demo_short, demo_long] ! 1)) = nrow (item_y ([demo_short, demo_long] ! 0))"
    by (simp add: demo_long_def demo_short_def)
  have e: "rows (item_y ([demo_short, demo_long] ! 1)) = [[1], [2]]"
    "slabs (b_y demo_out) ! 1 = [[1, 0], [2, 0]]"
    by (simp_all add: demo_long_def demo_out_def)
  from mel_rows_copied_and_padded[OF demo_call h2 h3 h4 h5] demo_call h2 h3 h4 h5 e show ?thesis by blast
qed

text \<open>
  C2 as stated fails: for a batch of a two-row mel and a one-row mel the collator returns
  a batch in which the one-row mel is written to both rows of its slab, so the slab cut
  to the recorded length is not the item's mel.
\<close>

theorem one_row_mel_is_broadcast:
  "fst (call 2 demo_collator [demo_short, demo_one_row]) = Inr demo_broadcast_out \<and>
   (1::nat) < length [demo_short, demo_one_row] \<and>
   wf2 (item_y ([demo_short, demo_one_row] ! 1)) \<and>
   nrow (item_y ([demo_short, demo_one_row] ! 0)) = 2 \<and>
   nrow (item_y ([demo_short, demo_one_row] ! 1)) = 1 \<and>
   rows (item_y ([demo_short, demo_one_row] ! 1)) = [[5, 6]] \<and>
   b_y_lengths demo_broadcast_out ! 1 = 2 \<and>
   slabs (b_y demo_broadcast_out) ! 1 = [[5, 6], [5, 6]] \<and>
   map (take (b_y_lengths demo_broadcast_out ! 1)) (slabs (b_y demo_broadcast_out) ! 1)
     \<noteq> rows (item_y ([demo_short, demo_one_row] ! 1))"
proof -
  have c: "fst (call 2 demo_collator [demo_short, demo_one_row]) = Inr demo_broadcast_out"
    by code_simp
  have r: "wf2 (item_y ([demo_short, demo_one_row] ! 1))"
    "nrow (item_y ([demo_short, demo_one_row] ! 0)) = 2"
    "nrow (item_y ([demo_short, demo_one_row] ! 1)) = 1"
    "rows (item_y ([demo_short, demo_one_row] ! 1)) = [[5, 6]]"
    by (simp_all add: wf2_def demo_short_def demo_one_row_def)
  have o: "b_y_lengths demo_broadcast_out ! 1 = 2"
    "slabs (b_y demo_broadcast_out) ! 1 = [[5, 6], [5, 6]]"
    by (simp_all add: demo_broadcast_out_def)
  have n: "map (take (b_y_lengths demo_broadcast_out ! 1)) (slabs (b_y demo_broadcast_out) ! 1)
             \<noteq> rows (item_y ([demo_short, demo_one_row] ! 1))"
    by (simp add: demo_broadcast_out_def demo_one_row_def)
  have i: "(1::nat) < length [demo_short, demo_one_row]" by simp
  from c i r o n show ?thesis by blast
qed

text \<open>
  C3. Every sample an index access returns has a waveform of at least 66150 samples; and
  when the record at the requested index gives a waveform of fewer than 66150 samples,
  the access draws an index in \<open>[0, dataset size)\<close> with \<open>random.randint\<close> and is the access at
  that index, with one nested call less to spend. When the record gives a waveform of
  66150 samples or more, the access returns that sample and draws nothing.
\<close>

theorem getitem_min_length:
  "(\<forall>dp. fst (getitem frames io self index g) = Inr dp \<longrightarrow> 66150 \<le> ncol (item_wav dp)) \<and>
   (\<forall>r d. py_index (filepaths_and_text self) index = Inr r \<and>
          get_datapoint io self r = Inr d \<and> ncol (item_wav d) < 66150 \<longrightarrow>
      (\<exists>j. 0 \<le> j \<and> j < int (dataset_len self) \<and>
           randint 0 (int (dataset_len self) - 1) g = (Inr j, \<lambda>k. g (Suc k)) \<and>
           getitem (Suc frames) io self index g = getitem frames io self j (\<lambda>k. g (Suc k)))) \<and>
   (\<forall>r d. py_index (filepaths_and_text self) index = Inr r \<and>
          get_datapoint io self r = Inr d \<and> 66150 \<le> ncol (item_wav d) \<longrightarrow>
      getitem (Suc frames) io self index g = (Inr d, g))"
proof -
  have a: "66150 \<le> ncol (item_wav dp)"
    if h: "fst (getitem frames io self index g) = Inr dp" for dp
  proof -
    obtain g' where "getitem frames io self index g = (Inr dp, g')"
      using h by (cases "getitem frames io self index g") auto
    then show ?thesis by (rule getitem_Inr)
  qed
  have b: "\<exists>j. 0 \<le> j \<and> j < int (dataset_len self) \<and>
                 randint 0 (int (dataset_len self) - 1) g = (Inr j, \<lambda>k. g (Suc k)) \<and>
                 getitem (Suc frames) io self index g = getitem frames io self j (\<lambda>k. g (Suc k))"
    if r: "py_index (filepaths_and_text self) index = Inr r"
      and d: "get_datapoint io self r = Inr d" and short: "ncol (item_wav d) < 66150"
    for r d
  proof -
    from py_index_Inr[OF r] have "0 < length (filepaths_and_text self)" by simp
    from randint_range[OF this, of g] obtain j where
      j: "randint 0 (int (length (filepaths_and_text self)) - 1) g = (Inr j, \<lambda>k. g (Suc k))"
      and rng: "0 \<le> j" "j < int (length (filepaths_and_text self))"
      by blast
    have "getitem (Suc frames) io self index g = getitem frames io self j (\<lambda>k. g (Suc k))"
      using r d short j by simp
    then show ?thesis using j rng by (auto simp: dataset_len_def)
  qed
  have c: "getitem (Suc frames) io self index g = (Inr d, g)"
    if "py_index (filepaths_and_text self) index = Inr r"
      and "get_datapoint io self r = Inr d" and "66150 \<le> ncol (item_wav d)"
    for r d
    using that by simp
  from a b c show ?thesis by blast
qed

theorem getitem_min_length_witness:
  "fst (getitem (Suc (Suc 0)) demo_env demo_dataset 0 (\<lambda>k. 1)) = Inr demo_datapoint \<and>
   66150 \<le> ncol (item_wav demo_datapoint) \<and>
   py_index (filepaths_and_text demo_dataset) 0 = Inr [''short.wav'', ''hi''] \<and>
   get_datapoint demo_env demo_dataset [''short.wav'', ''hi''] = Inr demo_short_datapoint \<and>
   ncol (item_wav demo_short_datapoint) < 66150 \<and>
   (\<exists>j. 0 \<le> j \<and> j < int (dataset_len demo_dataset) \<and>
        randint 0 (int (dataset_len demo_dataset) - 1) (\<lambda>k. 1) = (Inr j, \<lambda>k. 1) \<and>
        getitem (Suc (Suc 0)) demo_env demo_dataset 0 (\<lambda>k. 1)
          = getitem (Suc 0) demo_env demo_dataset j (\<lambda>k. 1)) \<and>
   py_index (filepaths_and_text demo_dataset) 1 = Inr [''long.wav'', ''hi''] \<and>
   get_datapoint demo_env demo_dataset [''long.wav'', ''hi''] = Inr demo_datapoint \<and>
   getitem (Suc 0) demo_env demo_dataset 1 (\<lambda>k. 1) = (Inr demo_datapoint, \<lambda>k. 1)"
proof -
  have h2: "py_index (filepaths_and_text demo_dataset) 0 = Inr [''short.wav'', ''hi'']"
    by (simp add: py_index_def demo_dataset_def)
  have h3: "ncol (item_wav demo_short_datapoint) < 66150"
    by (simp add: demo_short_datapoint_def)
  from getitem_min_length[of "Suc (Suc 0)" demo_env demo_dataset 0 "\<lambda>k. 1"] demo_getitem
  have a: "66150 \<le> ncol (item_wav demo_datapoint)" by blast
  from getitem_min_length[of "Suc 0" demo_env demo_dataset 0 "\<lambda>k. 1"] h2 demo_get_short h3
  have b: "\<exists>j. 0 \<le> j \<and> j < int (dataset_len demo_dataset) \<and>
        randint 0 (int (dataset_len demo_dataset) - 1) (\<lambda>k. 1) = (Inr j, \<lambda>k. 1) \<and>
        getitem (Suc (Suc 0)) demo_env demo_dataset 0 (\<lambda>k. 1)
          = getitem (Suc 0) demo_env demo_dataset j (\<lambda>k. 1)"
    by blast
  have h4: "py_index (filepaths_and_text demo_dataset) 1 = Inr [''long.wav'', ''hi'']"
    by (simp add: py_index_def demo_dataset_def)
  from getitem_min_length[of 0 demo_env demo_dataset 1 "\<lambda>k. 1"] h4 demo_get_datapoint a
  have c: "getitem (Suc 0) demo_env demo_dataset 1 (\<lambda>k. 1) = (Inr demo_datapoint, \<lambda>k. 1)"
    by blast
  from demo_getitem a h2 demo_get_short h3 b h4 demo_get_datapoint c show ?thesis by blast
qed

text \<open>
  C4. For every batch the collator returns and every item of it, the item's row of the
  waveform tensor is the first \<open>Tw_max\<close> samples of its waveform when the waveform is longer
  than \<open>Tw_max\<close>, and the whole waveform followed by zeros when it is not.
\<close>

theorem wav_truncated_or_padded:
  assumes ok: "fst (call factor self batch) = Inr b"
    and i: "i < length batch"
    and wf: "wf2 (item_wav (batch ! i))"
  shows "(nlast (b_wav b) < ncol (item_wav (batch ! i)) \<longrightarrow>
            slabs (b_wav b) ! i = [take (nlast (b_wav b)) (rows (item_wav (batch ! i)) ! 0)]) \<and>
         (ncol (item_wav (batch ! i)) \<le> nlast (b_wav b) \<longrightarrow>
            slabs (b_wav b) ! i
              = [rows (item_wav (batch ! i)) ! 0
                   @ replicate (nlast (b_wav b) - ncol (item_wav (batch ! i))) 0])"
proof -
  define w where "w = item_wav (batch ! i)"
  from call_Inr[OF ok] obtain T where T: "y_max_length_of factor batch = Inr T"
    and a: "assign_all 0 (map (\<lambda>item. truncate_wav (T * 256) (item_wav item)) batch)
                  (zeros3 (length batch) 1 (T * 256)) = Inr (b_wav b)"
    by blast
  define W where "W = T * 256"
  define src where "src = truncate_wav W w"
  from call_dims[OF ok] T have d: "nlast (b_wav b) = W" by (auto simp: W_def)
  have c: "ncol src \<le> W" by (simp add: src_def ncol_truncate_wav)
  have a': "assign_all 0 (map (\<lambda>item. truncate_wav W (item_wav item)) batch)
                  (zeros3 (length batch) 1 W) = Inr (b_wav b)"
    using a by (simp add: W_def)
  have k: "i < length (map (\<lambda>item. truncate_wav W (item_wav item)) batch)" using i by simp
  have z: "length (slabs (zeros3 (length batch) 1 W)) = nbatch (zeros3 (length batch) 1 W)"
    by (simp add: zeros3_def)
  note assign_all_at[OF a' k z]
  then obtain blk where b1: "broadcast2 1 (ncol src) src = Inr blk"
    and b2: "slabs (b_wav b) ! i = put_slab (ncol src) blk [replicate W 0]"
    using i c by (auto simp: zeros3_def src_def w_def min_def)
  from b1 have n1: "nrow src = 1" by (auto simp: broadcast2_def split: if_splits)
  with b1 have blk: "blk = rows src" by (simp add: broadcast2_exact)
  have nw: "nrow w = 1" using n1 by (simp add: src_def truncate_wav_def slice_cols_def split: if_splits)
  from wf2_rows[OF wf] nw have "length (rows w) = 1" by (simp add: w_def)
  then obtain r0 where r0: "rows w = [r0]" by (cases "rows w") auto
  with wf2_rows[OF wf] have lr: "length r0 = ncol w" by (simp add: w_def)
  have rs: "rows src = [if W < ncol w then take W r0 else r0]"
    using r0 by (simp add: src_def truncate_wav_def slice_cols_def)
  have slab: "slabs (b_wav b) ! i
                = [(if W < ncol w then take W r0 else r0) @ replicate (W - ncol src) 0]"
    using b2 blk rs by (simp add: put_slab_def)
  have cs: "ncol src = min (ncol w) W" by (simp add: src_def ncol_truncate_wav)
  show ?thesis using slab cs r0 d by (auto simp: w_def[symmetric])
qed


theorem wav_truncated_or_padded_witness:
  "fst (call 2 demo_collator [demo_short, demo_long]) = Inr demo_out \<and>
   (1::nat) < length [demo_short, demo_long] \<and>
   wf2 (item_wav ([demo_short, demo_long] ! 1)) \<and>
   nlast (b_wav demo_out) < ncol (item_wav ([demo_short, demo_long] ! 1)) \<and>
   slabs (b_wav demo_out) ! 1
     = [take (nlast (b_wav demo_out)) (rows (item_wav ([demo_short, demo_long] ! 1)) ! 0)] \<and>
   (0::nat) < length [demo_short, demo_long] \<and>
   wf2 (item_wav ([demo_short, demo_long] ! 0)) \<and>
   ncol (item_wav ([demo_short, demo_long] ! 0)) \<le> nlast (b_wav demo_out) \<and>
   slabs (b_wav demo_out) ! 0
     = [rows (item_wav ([demo_short, demo_long] ! 0)) ! 0
          @ replicate (nlast (b_wav demo_out) - ncol (item_wav ([demo_short, demo_long] ! 0))) 0] \<and>
   rows (item_wav ([demo_short, demo_long] ! 1)) = [replicate 512 3 @ replicate 188 4] \<and>
   slabs (b_wav demo_out) ! 1 = [replicate 512 3]"
proof -
  have i1: "(1::nat) < length [demo_short, demo_long]" by simp
  have i0: "(0::nat) < length [demo_short, demo_long]" by simp
  have w1: "wf2 (item_wav ([demo_short, demo_long] ! 1))"
    by (simp add: wf2_def demo_long_def)
  have w0: "wf2 (item_wav ([demo_short, demo_long] ! 0))"
    by (simp add: wf2_def demo_short_def)
  have lt: "nlast (b_wav demo_out) < ncol (item_wav ([demo_short, demo_long] ! 1))"
    by (simp add: demo_out_def demo_long_def)
  have le: "ncol (item_wav ([demo_short, demo_long] ! 0)) \<le> nlast (b_wav demo_out)"
    by (simp add: demo_out_def demo_short_def)
  have e: "rows (item_wav ([demo_short, demo_long] ! 1)) = [replicate 512 3 @ replicate 188 4]"
    "slabs (b_wav demo_out) ! 1 = [replicate 512 3]"
    by (simp_all add: demo_long_def demo_out_def)
  from wav_truncated_or_padded[OF demo_call i1 w1] wav_truncated_or_padded[OF demo_call i0 w0] demo_call i1 i0 w1 w0 lt le e
  show ?thesis by blast
qed

text \<open>
  C5. When blank insertion is enabled and the cleaned encoding of a text has \<open>n\<close> symbols,
  \<open>get_text\<close> returns a sequence of \<open>2 * n + 1\<close> ids: the symbols at the odd positions and
  the blank id 0 at the even ones, so before the first symbol, between every two, and
  after the last.
\<close>

theorem get_text_blank_length:
  assumes "text_to_sequence io text (ds_cleaners self) = Inr symbols" and "ds_add_blank self"
  shows "\<exists>r. get_text io self text add_blank = Inr r \<and>
             length r = 2 * length symbols + 1 \<and>
             (\<forall>k. k < length symbols \<longrightarrow> r ! (2 * k + 1) = symbols ! k) \<and>
             (\<forall>k. k \<le> length symbols \<longrightarrow> r ! (2 * k) = 0)"
  using assms
  by (simp add: get_text_def length_intersperse intersperse_odd intersperse_even)

theorem get_text_blank_length_witness:
  "text_to_sequence demo_env ''hi'' (ds_cleaners demo_dataset) = Inr [104, 105] \<and>
   ds_add_blank demo_dataset \<and>
   get_text demo_env demo_dataset ''hi'' False = Inr [0, 104, 0, 105, 0] \<and>
   (\<exists>r. get_text demo_env demo_dataset ''hi'' False = Inr r \<and>
        length r = 2 * length [104, 105 :: int] + 1)"
proof -
  have h1: "text_to_sequence demo_env ''hi'' (ds_cleaners demo_dataset) = Inr [104, 105]"
    by (simp add: demo_env_def)
  have h2: "ds_add_blank demo_dataset" by (simp add: demo_dataset_def)
  have e: "get_text demo_env demo_dataset ''hi'' False = Inr [0, 104, 0, 105, 0]"
    by (simp add: get_text_def demo_env_def demo_dataset_def)
  from get_text_blank_length[OF h1 h2, of False] h1 h2 e show ?thesis by blast
qed

text \<open>
  C6 at a failing input. A collator built for one speaker with code extraction disabled
  raises an UnboundLocalError on a batch: the returned dictionary reads the local
  \<open>codes\<close>, which only the codec branch binds. With code extraction enabled the same
  batch is collated, and its speaker field is absent.
\<close>

theorem call_without_codes_raises:
  "fst (call 2 (TextMelBatchCollate_init demo_codec 1 False) [demo_short, demo_long])
     = Inl UnboundLocalError \<and>
   fst (call 2 (TextMelBatchCollate_init demo_codec 1 True) [demo_short, demo_long])
     = Inr demo_out \<and>
   b_spks demo_out = None"
proof -
  have off: "fst (call 2 (TextMelBatchCollate_init demo_codec 1 False) [demo_short, demo_long])
               = Inl UnboundLocalError"
    by code_simp
  have on: "fst (call 2 (TextMelBatchCollate_init demo_codec 1 True) [demo_short, demo_long])
              = Inr demo_out"
    using demo_call by (simp add: demo_collator_def)
  have "b_spks demo_out = None" by (simp add: demo_out_def)
  with off on show ?thesis by blast
qed

text \<open>
  C7, as amended. For every readable manifest and every non-empty separator, parsing gives
  one record per line of the file, blank lines included: the stripped line split on the
  separator, never the empty list. A dataset built from the manifest has as many entries
  as the file has lines.
\<close>

theorem parse_one_record_per_line:
  assumes "open_lines io filelist_path = Inr f" and "split_char \<noteq> []"
  shows "parse_filelist io filelist_path split_char
           = Inr (map (\<lambda>line. split_from split_char [] (strip line)) f) \<and>
         list_all (\<lambda>rec. rec \<noteq> []) (map (\<lambda>line. split_from split_char [] (strip line)) f) \<and>
         (\<exists>ds g. TextMelDataset_init io filelist_path n_spks_arg cleaners add_blank n_fft n_mels
                    sample_rate hop_length win_length f_min f_max data_parameters_arg seed
                    = Inr (ds, g) \<and>
                  dataset_len ds = length f)"
proof -
  have p: "parse_filelist io filelist_path sep
             = Inr (map (\<lambda>line. split_from sep [] (strip line)) f)" if "sep \<noteq> []" for sep
    using assms(1) that by (simp add: parse_filelist_def py_split_def map_err_total)
  have ne: "list_all (\<lambda>rec. rec \<noteq> []) (map (\<lambda>line. split_from split_char [] (strip line)) f)"
    by (simp add: list_all_iff split_from_nonempty)
  have "''|'' \<noteq> []" by simp
  note d = p[OF this]
  obtain shuffled g where
    s: "shuffle (map (\<lambda>line. split_from ''|'' [] (strip line)) f) (random_seed io seed) = (shuffled, g)"
    by (cases "shuffle (map (\<lambda>line. split_from ''|'' [] (strip line)) f) (random_seed io seed)")
  have "length shuffled = length f"
    using length_shuffle[of "map (\<lambda>line. split_from ''|'' [] (strip line)) f" "random_seed io seed"] s
    by simp
  then have "\<exists>ds g. TextMelDataset_init io filelist_path n_spks_arg cleaners add_blank n_fft n_mels
                    sample_rate hop_length win_length f_min f_max data_parameters_arg seed
                    = Inr (ds, g) \<and> dataset_len ds = length f"
    using d s by (simp add: TextMelDataset_init_def dataset_len_def)
  with p[OF assms(2)] ne show ?thesis by blast
qed

theorem parse_one_record_per_line_witness:
  "open_lines demo_env ''list.txt'' = Inr [''a.wav|hello'' @ [CHR 0x0A], [CHR 0x0A]] \<and>
   ''|'' \<noteq> [] \<and>
   parse_filelist demo_env ''list.txt'' ''|''
     = Inr (map (\<lambda>line. split_from ''|'' [] (strip line))
                [''a.wav|hello'' @ [CHR 0x0A], [CHR 0x0A]]) \<and>
   (\<exists>ds g. TextMelDataset_init demo_env ''list.txt'' 1 [] True 1024 80 22050 256 1024 0 8000
              None (Some 1234) = Inr (ds, g) \<and>
            dataset_len ds = length [''a.wav|hello'' @ [CHR 0x0A], [CHR 0x0A]])"
proof -
  have h1: "open_lines demo_env ''list.txt'' = Inr [''a.wav|hello'' @ [CHR 0x0A], [CHR 0x0A]]"
    by (simp add: demo_env_def)
  have h2: "''|'' \<noteq> []" by simp
  from parse_one_record_per_line[OF h1 h2, of 1 "[]" True 1024 80 22050 256 1024 0 8000 None "Some 1234"] h1 h2
  show ?thesis by blast
qed

text \<open>
  C7 as stated fails: a manifest whose second line is blank parses to two records, the
  second being the one-field record of the empty string, while it has one non-empty line.
\<close>

theorem blank_line_yields_record:
  "open_lines demo_env ''list.txt'' = Inr [''a.wav|hello'' @ [CHR 0x0A], [CHR 0x0A]] \<and>
   strip [CHR 0x0A] = [] \<and>
   parse_filelist demo_env ''list.txt'' ''|'' = Inr [[''a.wav'', ''hello''], ['''']] \<and>
   length [[''a.wav'', ''hello''], ['''']]
     \<noteq> length (filter (\<lambda>line. strip line \<noteq> []) [''a.wav|hello'' @ [CHR 0x0A], [CHR 0x0A]])"
  by (simp add: parse_filelist_def demo_env_def py_split_def strip_def is_space_def)

text \<open>
  C8. For every audio file that loads, \<open>get_mel\<close> fails with the AssertionError of
  \<open>assert sr == self.sample_rate\<close> when the file's rate is not the dataset's, and returns the
  normalized mel with the waveform when it is. A failure of \<open>get_mel\<close> is the failure of
  \<open>get_datapoint\<close> and of \<open>__getitem__\<close>, which draws no index and does not retry.
\<close>

theorem get_mel_sample_rate:
  assumes "ta_load io filepath = Inr (audio, sr)"
  shows "(sr \<noteq> ds_sample_rate self \<longrightarrow> get_mel io self filepath = Inl AssertionError) \<and>
         (sr = ds_sample_rate self \<longrightarrow>
            get_mel io self filepath
              = Inr (normalize
                       (mel_spectrogram io audio (ds_n_fft self) (ds_n_mels self)
                          (ds_sample_rate self) (ds_hop_length self) (ds_win_length self)
                          (ds_f_min self) (ds_f_max self))
                       (fst (data_parameters self)) (snd (data_parameters self)),
                     audio)) \<and>
         (\<forall>e r spk text text'.
            get_mel io self filepath = Inl e \<and>
            record_fields io self r = Inr (filepath, spk, text) \<and>
            get_text io self text (ds_add_blank self) = Inr text' \<longrightarrow>
            get_datapoint io self r = Inl e \<and>
            (\<forall>frames index g. py_index (filepaths_and_text self) index = Inr r \<longrightarrow>
               getitem (Suc frames) io self index g = (Inl e, g)))"
  using assms
  by (auto simp: get_mel_def get_datapoint_def Let_def)


theorem get_mel_sample_rate_witness:
  "ta_load demo_env ''rate.wav''
     = Inr (\<lparr>nrow = 1, ncol = 66150, rows = [replicate 66150 0]\<rparr>, 16000) \<and>
   16000 \<noteq> ds_sample_rate demo_dataset \<and>
   get_mel demo_env demo_dataset ''rate.wav'' = Inl AssertionError \<and>
   record_fields demo_env demo_dataset [''rate.wav'', ''hi''] = Inr (''rate.wav'', None, ''hi'') \<and>
   get_text demo_env demo_dataset ''hi'' (ds_add_blank demo_dataset) = Inr [0, 104, 0, 105, 0] \<and>
   get_datapoint demo_env demo_dataset [''rate.wav'', ''hi''] = Inl AssertionError \<and>
   py_index (filepaths_and_text demo_dataset) 2 = Inr [''rate.wav'', ''hi''] \<and>
   getitem (Suc 0) demo_env demo_dataset 2 (\<lambda>k. 1) = (Inl AssertionError, \<lambda>k. 1) \<and>
   ta_load demo_env ''long.wav''
     = Inr (\<lparr>nrow = 1, ncol = 66150, rows = [replicate 66150 0]\<rparr>, 22050) \<and>
   22050 = ds_sample_rate demo_dataset \<and>
   get_mel demo_env demo_dataset ''long.wav''
     = Inr (normalize
              (mel_spectrogram demo_env \<lparr>nrow = 1, ncol = 66150, rows = [replicate 66150 0]\<rparr>
                 (ds_n_fft demo_dataset) (ds_n_mels demo_dataset) (ds_sample_rate demo_dataset)
                 (ds_hop_length demo_dataset) (ds_win_length demo_dataset)
                 (ds_f_min demo_dataset) (ds_f_max demo_dataset))
              (fst (data_parameters demo_dataset)) (snd (data_parameters demo_dataset)),
            \<lparr>nrow = 1, ncol = 66150, rows = [replicate 66150 0]\<rparr>)"
proof -
  have l1: "ta_load demo_env ''rate.wav''
              = Inr (\<lparr>nrow = 1, ncol = 66150, rows = [replicate 66150 0]\<rparr>, 16000)"
    by (simp add: demo_env_def)
  have l2: "ta_load demo_env ''long.wav''
              = Inr (\<lparr>nrow = 1, ncol = 66150, rows = [replicate 66150 0]\<rparr>, 22050)"
    by (simp add: demo_env_def)
  have r1: "16000 \<noteq> ds_sample_rate demo_dataset" by (simp add: demo_dataset_def)
  have r2: "22050 = ds_sample_rate demo_dataset" by (simp add: demo_dataset_def)
  have f: "record_fields demo_env demo_dataset [''rate.wav'', ''hi'']
             = Inr (''rate.wav'', None, ''hi'')"
    by (simp add: record_fields_def py_index_def demo_dataset_def)
  have t: "get_text demo_env demo_dataset ''hi'' (ds_add_blank demo_dataset)
             = Inr [0, 104, 0, 105, 0]"
    by (simp add: get_text_def demo_env_def demo_dataset_def)
  have i: "py_index (filepaths_and_text demo_dataset) 2 = Inr [''rate.wav'', ''hi'']"
    by (simp add: py_index_def demo_dataset_def)
  note A = get_mel_sample_rate[OF l1, of demo_dataset]
  note B = get_mel_sample_rate[OF l2, of demo_dataset]
  from A r1 have m: "get_mel demo_env demo_dataset ''rate.wav'' = Inl AssertionError" by blast
  from A m f t have d: "get_datapoint demo_env demo_dataset [''rate.wav'', ''hi''] = Inl AssertionError"
    by blast
  from A m f t i have g: "getitem (Suc 0) demo_env demo_dataset 2 (\<lambda>k. 1) = (Inl AssertionError, \<lambda>k. 1)"
    by blast
  from B r2 have ok: "get_mel demo_env demo_dataset ''long.wav''
     = Inr (normalize
              (mel_spectrogram demo_env \<lparr>nrow = 1, ncol = 66150, rows = [replicate 66150 0]\<rparr>
                 (ds_n_fft demo_dataset) (ds_n_mels demo_dataset) (ds_sample_rate demo_dataset)
                 (ds_hop_length demo_dataset) (ds_win_length demo_dataset)
                 (ds_f_min demo_dataset) (ds_f_max demo_dataset))
              (fst (data_parameters demo_dataset)) (snd (data_parameters demo_dataset)),
            \<lparr>nrow = 1, ncol = 66150, rows = [replicate 66150 0]\<rparr>)"
    by blast
  from l1 r1 m f t d i g l2 r2 ok show ?thesis by blast
qed

text \<open>
  C9. Calling the collator again on the same list, with the collator as the first call
  left it, gives the same result as the first call: the same batch, or the same error.
\<close>

theorem collate_twice_same:
  "fst (call factor (snd (call factor self batch)) batch) = fst (call factor self batch)"
proof (cases "init_state factor batch")
  case (Inl e)
  then show ?thesis by (simp add: call_def)
next
  case (Inr p)
  obtain W s0 where p: "p = (W, s0)" by (cases p)
  show ?thesis
  proof (cases "collate_loop W 0 batch s0")
    case (Inl e)
    then show ?thesis using Inr p by (simp add: call_def)
  next
    case l: (Inr s)
    obtain r s1 where c1: "codes_step self s = (r, s1)" by (cases "codes_step self s")
    obtain r2 s2 where c2: "codes_step s1 s = (r2, s2)" by (cases "codes_step s1 s")
    from codes_step_again[OF c1] c2 have r2: "r2 = r"
      and same: "n_spks s2 = n_spks s1" "get_codes s2 = get_codes s1"
      by simp_all
    have first: "call factor self batch
                   = (case r of Inl e \<Rightarrow> (Inl e, s1)
                      | Inr (codes, cl) \<Rightarrow> (finish s1 s codes cl, s1))"
      using Inr p l c1 by (simp add: call_def split: sum.splits)
    then have snd1: "snd (call factor self batch) = s1"
      by (simp split: sum.splits prod.splits)
    have second: "call factor s1 batch
                   = (case r of Inl e \<Rightarrow> (Inl e, s2)
                      | Inr (codes, cl) \<Rightarrow> (finish s2 s codes cl, s2))"
      using Inr p l c2 r2 by (simp add: call_def split: sum.splits)
    have "fst (call factor (snd (call factor self batch)) batch) = fst (call factor s1 batch)"
      by (simp only: snd1)
    also have "\<dots> = fst (call factor self batch)"
      using finish_cong[OF same] by (simp add: first second split: sum.splits prod.splits)
    finally show ?thesis .
  qed
qed

theorem collate_twice_same_witness:
  "fst (call 2 (snd (call 2 demo_collator [demo_short, demo_long])) [demo_short, demo_long])
     = Inr demo_out \<and>
   fst (call 2 demo_collator [demo_short, demo_long]) = Inr demo_out \<and>
   map_option training (encodec demo_collator) = Some True \<and>
   map_option training (encodec (snd (call 2 demo_collator [demo_short, demo_long])))
     = Some False"
proof -
  have t: "map_option training (encodec demo_collator) = Some True"
    by (simp add: demo_collator_def TextMelBatchCollate_init_def demo_codec_def)
  have t': "map_option training (encodec (snd (call 2 demo_collator [demo_short, demo_long])))
              = Some False"
    by code_simp
  from collate_twice_same[of 2 demo_collator "[demo_short, demo_long]"] demo_call t t'
  show ?thesis by simp
qed

text \<open>
  C10. For every batch the collator returns and every item of it, the recorded waveform
  length is the length after truncation, the smaller of the item's waveform length and
  the padded mel length times 256; it is at most the last dimension of the waveform
  tensor; and with code extraction enabled the item's code length is one more than that
  recorded length divided by 320.
\<close>

theorem wav_lengths_truncated:
  assumes "fst (call factor self batch) = Inr b" and "i < length batch"
  shows "b_wav_lengths b ! i = min (ncol (item_wav (batch ! i))) (nlast (b_y b) * 256) \<and>
         b_wav_lengths b ! i \<le> nlast (b_wav b) \<and>
         (get_codes self \<longrightarrow>
            map_option (\<lambda>codes_lengths. codes_lengths ! i) (b_codes_lengths b)
              = Some (1 + b_wav_lengths b ! i div 320))"
proof -
  from call_Inr[OF assms(1)] obtain T where T: "y_max_length_of factor batch = Inr T"
    and wl: "b_wav_lengths b = map (\<lambda>item. ncol (truncate_wav (T * 256) (item_wav item))) batch"
    and cl: "b_codes_lengths b = Some (map (\<lambda>wav_len. 1 + wav_len div 320) (b_wav_lengths b))"
    by blast
  from call_dims[OF assms(1)] T have d: "nlast (b_y b) = T" "nlast (b_wav b) = T * 256"
    by auto
  show ?thesis using wl cl d assms(2) by (simp add: ncol_truncate_wav)
qed

theorem wav_lengths_truncated_witness:
  "fst (call 2 demo_collator [demo_short, demo_long]) = Inr demo_out \<and>
   (1::nat) < length [demo_short, demo_long] \<and>
   get_codes demo_collator \<and>
   b_wav_lengths demo_out ! 1
     = min (ncol (item_wav ([demo_short, demo_long] ! 1))) (nlast (b_y demo_out) * 256) \<and>
   b_wav_lengths demo_out ! 1 \<le> nlast (b_wav demo_out) \<and>
   map_option (\<lambda>codes_lengths. codes_lengths ! 1) (b_codes_lengths demo_out)
     = Some (1 + b_wav_lengths demo_out ! 1 div 320) \<and>
   ncol (item_wav ([demo_short, demo_long] ! 1)) = 700 \<and>
   b_wav_lengths demo_out ! 1 = 512 \<and>
   b_codes_lengths demo_out = Some [1, 2]"
proof -
  have h2: "(1::nat) < length [demo_short, demo_long]" by simp
  have g: "get_codes demo_collator"
    by (simp add: demo_collator_def TextMelBatchCollate_init_def)
  have e: "ncol (item_wav ([demo_short, demo_long] ! 1)) = 700"
    "b_wav_lengths demo_out ! 1 = 512" "b_codes_lengths demo_out = Some [1, 2]"
    by (simp_all add: demo_long_def demo_out_def)
  from wav_lengths_truncated[OF demo_call h2] demo_call h2 g e show ?thesis by blast
qed

end
